theory Spec2Isabelle
  imports Complex_Main
begin

section \<open>Values that cross the boundary of the server\<close>

text \<open>
  The server (\<^verbatim>\<open>server/index.js\<close>, \<^verbatim>\<open>controllers/campaignController.js\<close>,
  \<^verbatim>\<open>utils/blockchain.js\<close>) talks to three things it does not own: the ledger contract
  behind an ethers \<^verbatim>\<open>Contract\<close> object, the MongoDB collection behind the Mongoose model
  \<^verbatim>\<open>Campaign\<close>, and the JavaScript runtime. Every call to them can throw; a thrown value is
  an \<open>error\<close>, and a call returns \<open>error + 'a\<close> (\<open>Inl\<close> the thrown value).

  An error carries the four properties the handlers read from it. The empty string stands
  for a property that is absent (or empty): both are falsy for \<^verbatim>\<open>||\<close> and \<^verbatim>\<open>?:\<close>.
\<close>

datatype error = Error (reason: string) (shortMessage: string) (message: string) (code: string)

type_synonym 'a result = "error + 'a"

text \<open>A field of a JSON request body: left out, \<^verbatim>\<open>null\<close>, or a value.\<close>

datatype 'a field = Undefined | Null | Value 'a

text \<open>
  The tuple \<^verbatim>\<open>getCampaign\<close> returns:
  \<^verbatim>\<open>[creator, title, description, goal, deadline, amountCollected]\<close>.
  The three amounts are \<^verbatim>\<open>uint256\<close>, which ethers hands over as non-negative bigints.
\<close>

record campaign =
  creator :: string
  title :: string
  description :: string
  goal :: nat
  deadline :: nat
  amountCollected :: nat

text \<open>
  A log of a receipt is seen by the server only through \<^verbatim>\<open>iface.parseLog(log)\<close>, which
  throws, returns \<^verbatim>\<open>null\<close>, or returns a description with a name and arguments. A log is
  modelled by that outcome; of the arguments only \<^verbatim>\<open>args.campaignId\<close> is read.
\<close>

datatype parsedLog = ParsedLog (name: string) (args_campaignId: nat)

type_synonym log = "parsedLog option result"

record receipt =
  blockNumber :: nat
  logs :: "log list"

text \<open>
  The contract object and a pending transaction are objects with asynchronous methods.
  A method is a function on the state \<open>'s\<close> of everything behind the RPC connection (the
  chain, the node, the network): it returns an outcome and the next state. Nothing is
  assumed about \<open>'s\<close> or about what the methods do.
\<close>

record 's tx =
  hash :: string
  wait :: "'s \<Rightarrow> receipt result \<times> 's"

record 's contract =
  campaignCount :: "'s \<Rightarrow> nat result \<times> 's"
  getCampaign :: "int \<Rightarrow> 's \<Rightarrow> campaign result \<times> 's"
  createCampaign :: "string \<Rightarrow> string \<Rightarrow> nat \<Rightarrow> int \<Rightarrow> 's \<Rightarrow> 's tx result \<times> 's"
  fund :: "int \<Rightarrow> nat \<Rightarrow> 's \<Rightarrow> 's tx result \<times> 's"

text \<open>Every call the server makes on the ledger is written to a log, in order.\<close>

datatype ledger_call =
    CampaignCount
  | GetCampaign int
  | CreateCampaign string string nat int
  | Fund int nat
  | Wait string

text \<open>
  A document of the \<^verbatim>\<open>Campaign\<close> collection, with the fields the handlers write.
  \<open>raisedEth = None\<close> is a document created without that field
  (\<^verbatim>\<open>createCampaignOnBlockchain\<close> passes none): its value is then whatever the schema in
  \<^verbatim>\<open>models/Campaign.js\<close> defaults to.
\<close>

record doc =
  d_title :: string
  d_description :: string
  targetEth :: real
  raisedEth :: "real option"
  d_creator :: string
  txHash :: string
  campaignId :: int

text \<open>
  The store: \<^verbatim>\<open>mongoose.connection.readyState\<close>, the documents in insertion order, and
  \<open>fault\<close>, the error with which the next operation on the collection is rejected while
  the store is unavailable.
\<close>

record store =
  readyState :: nat
  docs :: "doc list"
  fault :: "error option"

text \<open>
  The world a request runs in: the state behind the contract, the log of ledger calls, the
  store, and the values \<^verbatim>\<open>Math.random()\<close> returns (\<open>randoms k\<close> is the \<open>k\<close>-th draw).
\<close>

record 's world =
  chain :: 's
  calls :: "ledger_call list"
  db :: store
  randoms :: "nat \<Rightarrow> real"
  drawn :: nat

text \<open>
  What is fixed at start-up: the contract (\<^verbatim>\<open>null\<close> when the environment is incomplete or
  the deployment check fails) and the conversions of ethers and of the runtime, which are
  not part of the repository and are taken as they come:
  \<^verbatim>\<open>ethers.parseEther\<close> (throws on text that is no amount), \<^verbatim>\<open>ethers.formatEther\<close> and
  \<^verbatim>\<open>parseFloat\<close>. JavaScript numbers are read as reals; \<^verbatim>\<open>Number\<close> of a bigint and
  \<^verbatim>\<open>toString\<close> of a bigint keep the number and are not written.
\<close>

record 's env =
  contract :: "'s contract option"
  parseEther :: "string \<Rightarrow> nat result"
  formatEther :: "nat \<Rightarrow> string"
  parseFloat :: "string \<Rightarrow> real"

subsection \<open>Responses\<close>

text \<open>The objects of \<^verbatim>\<open>GET /campaigns\<close> in \<^verbatim>\<open>index.js\<close>.\<close>

record campaign_item =
  ci_id :: nat
  ci_owner :: string
  ci_title :: string
  ci_description :: string
  ci_goal :: string
  ci_deadline :: nat
  ci_raised :: string

text \<open>The objects \<^verbatim>\<open>fetchAllCampaigns\<close> returns; \<open>rc_deadline = None\<close> is \<^verbatim>\<open>null\<close>.\<close>

record raw_campaign =
  rc_id :: nat
  rc_creator :: string
  rc_title :: string
  rc_description :: string
  rc_goal :: nat
  rc_amountCollected :: nat
  rc_deadline :: "nat option"

text \<open>The objects of \<^verbatim>\<open>getAllBlockchainCampaigns\<close>.\<close>

record formatted_campaign =
  fc_id :: nat
  fc_creator :: string
  fc_title :: string
  fc_description :: string
  fc_goal :: string
  fc_amountCollected :: string
  fc_deadline :: "nat option"

text \<open>The object of \<^verbatim>\<open>GET /campaign/:id\<close>.\<close>

record campaign_view =
  cv_id :: int
  cv_creator :: string
  cv_title :: string
  cv_description :: string
  cv_goalEth :: string
  cv_amountCollectedEth :: string
  cv_deadline :: nat

text \<open>
  A response body. \<open>ErrorBody flag text details\<close> is \<^verbatim>\<open>{success: false, error, details}\<close>
  when \<open>flag\<close> holds and \<^verbatim>\<open>{error}\<close> otherwise; \<open>details = None\<close> is \<^verbatim>\<open>undefined\<close>.
  \<open>Created\<close>, \<open>Donated\<close> and \<open>Synced\<close> are the bodies with \<^verbatim>\<open>success: true\<close>.
\<close>

datatype body =
    Campaigns "campaign_item list"
  | FormattedCampaigns "formatted_campaign list"
  | CampaignView campaign_view
  | ErrorBody bool string "string option"
  | Created string string "nat option" int
  | Donated string string
  | Synced real "string option"

record response =
  status :: nat
  body :: body

definition json :: "body \<Rightarrow> response" where
  "json b = \<lparr>status = 200, body = b\<rparr>"

definition status_json :: "nat \<Rightarrow> body \<Rightarrow> response" where
  "status_json n b = \<lparr>status = n, body = b\<rparr>"

section \<open>Calls on the ledger\<close>

definition call_campaignCount :: "'s contract \<Rightarrow> 's world \<Rightarrow> nat result \<times> 's world" where
  "call_campaignCount c w =
     (case campaignCount c (chain w) of
        (r, s) \<Rightarrow> (r, w\<lparr>chain := s, calls := calls w @ [CampaignCount]\<rparr>))"

definition call_getCampaign :: "'s contract \<Rightarrow> int \<Rightarrow> 's world \<Rightarrow> campaign result \<times> 's world" where
  "call_getCampaign c i w =
     (case getCampaign c i (chain w) of
        (r, s) \<Rightarrow> (r, w\<lparr>chain := s, calls := calls w @ [GetCampaign i]\<rparr>))"

definition call_createCampaign ::
  "'s contract \<Rightarrow> string \<Rightarrow> string \<Rightarrow> nat \<Rightarrow> int \<Rightarrow> 's world \<Rightarrow> 's tx result \<times> 's world" where
  "call_createCampaign c t d g n w =
     (case createCampaign c t d g n (chain w) of
        (r, s) \<Rightarrow> (r, w\<lparr>chain := s, calls := calls w @ [CreateCampaign t d g n]\<rparr>))"

definition call_fund :: "'s contract \<Rightarrow> int \<Rightarrow> nat \<Rightarrow> 's world \<Rightarrow> 's tx result \<times> 's world" where
  "call_fund c i v w =
     (case fund c i v (chain w) of
        (r, s) \<Rightarrow> (r, w\<lparr>chain := s, calls := calls w @ [Fund i v]\<rparr>))"

definition call_wait :: "'s tx \<Rightarrow> 's world \<Rightarrow> receipt result \<times> 's world" where
  "call_wait t w =
     (case wait t (chain w) of
        (r, s) \<Rightarrow> (r, w\<lparr>chain := s, calls := calls w @ [Wait (hash t)]\<rparr>))"

section \<open>Listing the campaigns\<close>

subsection \<open>\<^verbatim>\<open>GET /campaigns\<close> in \<^verbatim>\<open>index.js\<close>\<close>

text \<open>
  One campaign of the list. \<^verbatim>\<open>title || "Untitled Campaign"\<close> replaces an empty title;
  \<^verbatim>\<open>goal || 0n\<close> and \<^verbatim>\<open>deadline ? deadline.toString() : "0"\<close> keep the number, since
  the replacement for zero is zero.
\<close>

definition campaign_item_of :: "'s env \<Rightarrow> nat \<Rightarrow> campaign \<Rightarrow> campaign_item" where
  "campaign_item_of env i r =
     \<lparr>ci_id = i,
      ci_owner = creator r,
      ci_title = (if title r = [] then ''Untitled Campaign'' else title r),
      ci_description = (if description r = [] then ''No description'' else description r),
      ci_goal = formatEther env (goal r),
      ci_deadline = deadline r,
      ci_raised = formatEther env (amountCollected r)\<rparr>"

text \<open>
  The loop \<^verbatim>\<open>for (let i = 1; i <= total; i++)\<close>: a fetch that throws is caught inside the
  loop body and the loop goes on with the next identifier.
\<close>

function campaigns_loop ::
  "'s env \<Rightarrow> 's contract \<Rightarrow> nat \<Rightarrow> nat \<Rightarrow> campaign_item list \<Rightarrow> 's world
     \<Rightarrow> campaign_item list \<times> 's world" where
  "campaigns_loop env c i totalN campaigns w =
     (if i \<le> totalN then
        (case call_getCampaign c (int i) w of
           (Inl err, w') \<Rightarrow> campaigns_loop env c (i + 1) totalN campaigns w'
         | (Inr result, w') \<Rightarrow>
             campaigns_loop env c (i + 1) totalN (campaigns @ [campaign_item_of env i result]) w')
      else (campaigns, w))"
  by pat_completeness auto
termination
  by (relation "measure (\<lambda>(env, c, i, totalN, campaigns, w). Suc totalN - i)") auto

definition get_campaigns :: "'s env \<Rightarrow> 's world \<Rightarrow> response \<times> 's world" where
  "get_campaigns env w =
     (case contract env of
        None \<Rightarrow> (json (Campaigns []), w)
      | Some c \<Rightarrow>
          (case call_campaignCount c w of
             (Inl countErr, w1) \<Rightarrow> (json (Campaigns []), w1)
           | (Inr totalN, w1) \<Rightarrow>
               if totalN = 0 then (json (Campaigns []), w1)
               else (case campaigns_loop env c 1 totalN [] w1 of
                       (campaigns, w2) \<Rightarrow> (json (Campaigns campaigns), w2))))"

subsection \<open>\<^verbatim>\<open>fetchAllCampaigns\<close> in \<^verbatim>\<open>utils/blockchain.js\<close>\<close>

definition raw_campaign_of :: "nat \<Rightarrow> campaign \<Rightarrow> raw_campaign" where
  "raw_campaign_of i r =
     \<lparr>rc_id = i,
      rc_creator = creator r,
      rc_title = title r,
      rc_description = description r,
      rc_goal = goal r,
      rc_amountCollected = amountCollected r,
      rc_deadline = (if deadline r = 0 then None else Some (deadline r))\<rparr>"

function fetchAll_loop ::
  "'s contract \<Rightarrow> nat \<Rightarrow> nat \<Rightarrow> raw_campaign list \<Rightarrow> 's world \<Rightarrow> raw_campaign list \<times> 's world" where
  "fetchAll_loop c i count out w =
     (if i \<le> count then
        (case call_getCampaign c (int i) w of
           (Inl err, w') \<Rightarrow> fetchAll_loop c (i + 1) count out w'
         | (Inr result, w') \<Rightarrow> fetchAll_loop c (i + 1) count (out @ [raw_campaign_of i result]) w')
      else (out, w))"
  by pat_completeness auto
termination
  by (relation "measure (\<lambda>(c, i, count, out, w). Suc count - i)") auto

text \<open>The final \<^verbatim>\<open>out.map\<close> copies every field of every object.\<close>

definition normalize :: "raw_campaign \<Rightarrow> raw_campaign" where
  "normalize c =
     \<lparr>rc_id = rc_id c,
      rc_creator = rc_creator c,
      rc_title = rc_title c,
      rc_description = rc_description c,
      rc_goal = rc_goal c,
      rc_amountCollected = rc_amountCollected c,
      rc_deadline = rc_deadline c\<rparr>"

definition fetchAllCampaigns ::
  "'s contract option \<Rightarrow> 's world \<Rightarrow> raw_campaign list result \<times> 's world" where
  "fetchAllCampaigns contractArg w =
     (case contractArg of
        None \<Rightarrow> (Inl (Error [] [] ''Contract not provided'' []), w)
      | Some c \<Rightarrow>
          (case call_campaignCount c w of
             (Inl e, w1) \<Rightarrow> (Inl e, w1)
           | (Inr count, w1) \<Rightarrow>
               (case fetchAll_loop c 1 count [] w1 of
                  (out, w2) \<Rightarrow> (Inr (map normalize out), w2))))"

subsection \<open>\<^verbatim>\<open>getAllBlockchainCampaigns\<close> in \<^verbatim>\<open>controllers/campaignController.js\<close>\<close>

text \<open>
  \<^verbatim>\<open>err.message || err\<close> in a string concatenation: the message, or for an error without one
  the text of the error object itself.
\<close>

definition message_or_err :: "error \<Rightarrow> string" where
  "message_or_err e = (if message e \<noteq> [] then message e else ''Error'')"

text \<open>
  \<^verbatim>\<open>c.goal\<close> and \<^verbatim>\<open>c.amountCollected\<close> are non-empty decimal strings, hence truthy, and
  \<^verbatim>\<open>formatEther\<close> accepts them: the \<^verbatim>\<open>"0"\<close> defaults and the inner \<^verbatim>\<open>catch\<close> are dead.
\<close>

definition formatted_of :: "'s env \<Rightarrow> raw_campaign \<Rightarrow> formatted_campaign" where
  "formatted_of env c =
     \<lparr>fc_id = rc_id c,
      fc_creator = rc_creator c,
      fc_title = rc_title c,
      fc_description = rc_description c,
      fc_goal = formatEther env (rc_goal c),
      fc_amountCollected = formatEther env (rc_amountCollected c),
      fc_deadline = rc_deadline c\<rparr>"

definition getAllBlockchainCampaigns :: "'s env \<Rightarrow> 's world \<Rightarrow> response \<times> 's world" where
  "getAllBlockchainCampaigns env w =
     (case contract env of
        None \<Rightarrow> (status_json 503 (ErrorBody False ''Blockchain not configured'' None), w)
      | Some c \<Rightarrow>
          (case fetchAllCampaigns (contract env) w of
             (Inl err, w1) \<Rightarrow>
               (status_json 500
                  (ErrorBody False (''Could not fetch campaigns: '' @ message_or_err err) None), w1)
           | (Inr raw, w1) \<Rightarrow> (json (FormattedCampaigns (map (formatted_of env) raw)), w1)))"

section \<open>The store and the runtime\<close>

text \<open>
  \<^verbatim>\<open>Campaign.create(doc)\<close> appends a document. Mongoose queues an operation issued while
  the connection is down and rejects it when the queue times out; an operation on an
  unavailable store is rejected with the store's fault.
\<close>

definition Campaign_create :: "doc \<Rightarrow> 's world \<Rightarrow> unit result \<times> 's world" where
  "Campaign_create d w =
     (if readyState (db w) \<noteq> 1 then (Inl (Error [] [] ''buffering timed out'' []), w)
      else case fault (db w) of
             Some e \<Rightarrow> (Inl e, w)
           | None \<Rightarrow> (Inr (), w\<lparr>db := (db w)\<lparr>docs := docs (db w) @ [d]\<rparr>\<rparr>))"

text \<open>
  \<^verbatim>\<open>findOneAndUpdate({campaignId: n}, {raisedEth: v}, {new: true})\<close>: the first document
  with that \<^verbatim>\<open>campaignId\<close> gets \<^verbatim>\<open>raisedEth\<close> replaced by \<open>v\<close> and is returned as
  updated; without such a document nothing changes and the result is \<^verbatim>\<open>null\<close>.
\<close>

fun update_first :: "int \<Rightarrow> real \<Rightarrow> doc list \<Rightarrow> doc list \<times> doc option" where
  "update_first n v [] = ([], None)"
| "update_first n v (d # ds) =
     (if campaignId d = n then ((d\<lparr>raisedEth := Some v\<rparr>) # ds, Some (d\<lparr>raisedEth := Some v\<rparr>))
      else (case update_first n v ds of (ds', r) \<Rightarrow> (d # ds', r)))"

definition Campaign_findOneAndUpdate ::
  "int \<Rightarrow> real \<Rightarrow> 's world \<Rightarrow> doc option result \<times> 's world" where
  "Campaign_findOneAndUpdate n v w =
     (if readyState (db w) \<noteq> 1 then (Inl (Error [] [] ''buffering timed out'' []), w)
      else case fault (db w) of
             Some e \<Rightarrow> (Inl e, w)
           | None \<Rightarrow>
               (case update_first n v (docs (db w)) of
                  (ds, r) \<Rightarrow> (Inr r, w\<lparr>db := (db w)\<lparr>docs := ds\<rparr>\<rparr>)))"

definition Math_random :: "'s world \<Rightarrow> real \<times> 's world" where
  "Math_random w = (randoms w (drawn w), w\<lparr>drawn := drawn w + 1\<rparr>)"

text \<open>\<^verbatim>\<open>!x\<close> for a text field: absent, \<^verbatim>\<open>null\<close> and the empty string are falsy.\<close>

fun falsy :: "string field \<Rightarrow> bool" where
  "falsy (Value s) = (s = [])"
| "falsy _ = True"

text \<open>The text of a field that has passed the check above.\<close>

fun text_of :: "string field \<Rightarrow> string" where
  "text_of (Value s) = s"
| "text_of _ = []"

text \<open>\<^verbatim>\<open>x.toString()\<close> throws a \<^verbatim>\<open>TypeError\<close> on \<^verbatim>\<open>undefined\<close> and \<^verbatim>\<open>null\<close>.\<close>

definition TypeError :: error where
  "TypeError = Error [] [] ''Cannot read properties of undefined'' []"

fun toString :: "string field \<Rightarrow> string result" where
  "toString (Value s) = Inr s"
| "toString _ = Inl TypeError"

text \<open>
  \<^verbatim>\<open>BigInt(x)\<close> for a field that holds an integer number; \<^verbatim>\<open>BigInt(undefined)\<close> and
  \<^verbatim>\<open>BigInt(null)\<close> throw.
\<close>

fun BigInt :: "int field \<Rightarrow> int result" where
  "BigInt (Value n) = Inr n"
| "BigInt _ = Inl (Error [] [] ''Cannot convert to a BigInt'' [])"

text \<open>\<^verbatim>\<open>x ?? d\<close>: the default for \<^verbatim>\<open>undefined\<close> and \<^verbatim>\<open>null\<close> only.\<close>

fun nullish :: "'a field \<Rightarrow> 'a \<Rightarrow> 'a" where
  "nullish (Value x) d = x"
| "nullish _ d = d"

section \<open>Creating a campaign\<close>

record create_request =
  rq_title :: "string field"
  rq_description :: "string field"
  rq_goal :: "string field"
  rq_durationInDays :: "int field"
  rq_user :: string

subsection \<open>\<^verbatim>\<open>POST /createCampaign\<close> in \<^verbatim>\<open>index.js\<close>\<close>

text \<open>\<^verbatim>\<open>err?.reason || err?.shortMessage || err?.message || "Unknown error"\<close>\<close>

definition errorMessage :: "error \<Rightarrow> string" where
  "errorMessage err =
     (if reason err \<noteq> [] then reason err
      else if shortMessage err \<noteq> [] then shortMessage err
      else if message err \<noteq> [] then message err
      else ''Unknown error'')"

definition create_failed :: "error \<Rightarrow> response" where
  "create_failed err =
     status_json 500
       (ErrorBody True (''Failed to create campaign: '' @ errorMessage err)
          (if code err \<noteq> [] then Some (''Error code: '' @ code err) else None))"

text \<open>
  The scan of \<^verbatim>\<open>receipt.logs\<close>: the first log that parses to an event named
  \<^verbatim>\<open>CampaignCreated\<close> gives the identifier; a log that does not parse, parses to
  \<^verbatim>\<open>null\<close> or has another name is passed over.
\<close>

fun scanLogs :: "log list \<Rightarrow> nat option" where
  "scanLogs [] = None"
| "scanLogs (l # ls) =
     (case l of
        Inr (Some parsed) \<Rightarrow>
          if name parsed = ''CampaignCreated'' then Some (args_campaignId parsed) else scanLogs ls
      | _ \<Rightarrow> scanLogs ls)"

text \<open>
  Lines 163 to 192: the event, else \<^verbatim>\<open>campaignCount()\<close>, else
  \<^verbatim>\<open>Math.floor(Math.random() * 1000000)\<close> in the \<^verbatim>\<open>catch\<close>.
\<close>

definition resolveCampaignId :: "'s contract \<Rightarrow> receipt \<Rightarrow> 's world \<Rightarrow> int \<times> 's world" where
  "resolveCampaignId c rcpt w =
     (case scanLogs (logs rcpt) of
        Some n \<Rightarrow> (int n, w)
      | None \<Rightarrow>
          (case call_campaignCount c w of
             (Inr cnt, w1) \<Rightarrow> (int cnt, w1)
           | (Inl countErr, w1) \<Rightarrow>
               (case Math_random w1 of (r, w2) \<Rightarrow> (\<lfloor>r * 1000000\<rfloor>, w2))))"

text \<open>
  Lines 196 to 212: the metadata is stored when the store is connected; whatever the
  store throws is caught and dropped.
\<close>

definition storeMetadata ::
  "'s env \<Rightarrow> create_request \<Rightarrow> string \<Rightarrow> string \<Rightarrow> int \<Rightarrow> 's world \<Rightarrow> 's world" where
  "storeMetadata env req g txh cid w =
     (if readyState (db w) = 1 then
        snd (Campaign_create
               \<lparr>d_title = text_of (rq_title req),
                d_description = text_of (rq_description req),
                targetEth = parseFloat env g,
                raisedEth = Some 0,
                d_creator = rq_user req,
                txHash = txh,
                campaignId = cid\<rparr> w)
      else w)"

definition createCampaign_try ::
  "'s env \<Rightarrow> 's contract \<Rightarrow> create_request \<Rightarrow> 's world \<Rightarrow> response \<times> 's world" where
  "createCampaign_try env c req w =
     (case toString (rq_goal req) of
        Inl err \<Rightarrow> (create_failed err, w)
      | Inr g \<Rightarrow>
     (case parseEther env g of
        Inl err \<Rightarrow> (create_failed err, w)
      | Inr goalWei \<Rightarrow>
     (case call_createCampaign c (text_of (rq_title req)) (text_of (rq_description req)) goalWei
             (nullish (rq_durationInDays req) 30) w of
        (Inl err, w1) \<Rightarrow> (create_failed err, w1)
      | (Inr t, w1) \<Rightarrow>
     (case call_wait t w1 of
        (Inl err, w2) \<Rightarrow> (create_failed err, w2)
      | (Inr rcpt, w2) \<Rightarrow>
     (case resolveCampaignId c rcpt w2 of
        (cid, w3) \<Rightarrow>
          (json (Created ''Campaign created!'' (hash t) (Some (blockNumber rcpt)) cid),
           storeMetadata env req g (hash t) cid w3))))))"

definition createCampaign_handler ::
  "'s env \<Rightarrow> create_request \<Rightarrow> 's world \<Rightarrow> response \<times> 's world" where
  "createCampaign_handler env req w =
     (case contract env of
        None \<Rightarrow> (status_json 503 (ErrorBody True ''Blockchain not configured'' None), w)
      | Some c \<Rightarrow>
          if falsy (rq_title req) \<or> falsy (rq_description req)
             \<or> rq_goal req = Undefined \<or> rq_goal req = Null
          then (status_json 400 (ErrorBody True ''title, description and goal are required'' None), w)
          else createCampaign_try env c req w)"

subsection \<open>\<^verbatim>\<open>createCampaignOnBlockchain\<close> in \<^verbatim>\<open>controllers/campaignController.js\<close>\<close>

text \<open>\<^verbatim>\<open>err?.shortMessage || err?.message || "Create failed"\<close>\<close>

definition controller_create_failed :: "error \<Rightarrow> response" where
  "controller_create_failed err =
     status_json 500
       (ErrorBody True
          (if shortMessage err \<noteq> [] then shortMessage err
           else if message err \<noteq> [] then message err
           else ''Create failed'') None)"

text \<open>
  The controller checks \<^verbatim>\<open>goal === undefined\<close> only, reads no event, takes
  \<^verbatim>\<open>Number(campaignCount) - 1\<close> as the identifier and stores no \<^verbatim>\<open>raisedEth\<close>. It does not
  look at \<^verbatim>\<open>readyState\<close> before it writes.
\<close>

definition createCampaignOnBlockchain ::
  "'s env \<Rightarrow> create_request \<Rightarrow> 's world \<Rightarrow> response \<times> 's world" where
  "createCampaignOnBlockchain env req w =
     (case contract env of
        None \<Rightarrow> (status_json 503 (ErrorBody True ''Blockchain not configured'' None), w)
      | Some c \<Rightarrow>
          if falsy (rq_title req) \<or> falsy (rq_description req) \<or> rq_goal req = Undefined
          then (status_json 400 (ErrorBody True ''title, description and goal required'' None), w)
          else
     (case toString (rq_goal req) of
        Inl err \<Rightarrow> (controller_create_failed err, w)
      | Inr g \<Rightarrow>
     (case parseEther env g of
        Inl err \<Rightarrow> (controller_create_failed err, w)
      | Inr goalWei \<Rightarrow>
     (case call_createCampaign c (text_of (rq_title req)) (text_of (rq_description req)) goalWei
             (nullish (rq_durationInDays req) 30) w of
        (Inl err, w1) \<Rightarrow> (controller_create_failed err, w1)
      | (Inr t, w1) \<Rightarrow>
     (case call_wait t w1 of
        (Inl err, w2) \<Rightarrow> (controller_create_failed err, w2)
      | (Inr rcpt, w2) \<Rightarrow>
     (case call_campaignCount c w2 of
        (Inl err, w3) \<Rightarrow> (controller_create_failed err, w3)
      | (Inr cnt, w3) \<Rightarrow>
          (json (Created ''Campaign created'' (hash t) None (int cnt - 1)),
           snd (Campaign_create
                  \<lparr>d_title = text_of (rq_title req),
                   d_description = text_of (rq_description req),
                   targetEth = parseFloat env g,
                   raisedEth = None,
                   d_creator = rq_user req,
                   txHash = hash t,
                   campaignId = int cnt - 1\<rparr> w3))))))))"

section \<open>Donating\<close>

record donate_request =
  dn_id :: "int field"
  dn_amount :: "string field"

text \<open>\<^verbatim>\<open>parseFloat(ethers.formatEther(amountCollected))\<close>\<close>

definition raisedEth_of :: "'s env \<Rightarrow> campaign \<Rightarrow> real" where
  "raisedEth_of env r = parseFloat env (formatEther env (amountCollected r))"

text \<open>
  Lines 249 to 267 of \<^verbatim>\<open>index.js\<close>: with the store connected the amount is read back from
  the ledger and written over the stored one; whatever is thrown on the way is caught and
  dropped.
\<close>

definition donate_sync :: "'s env \<Rightarrow> 's contract \<Rightarrow> int \<Rightarrow> 's world \<Rightarrow> 's world" where
  "donate_sync env c cid w =
     (if readyState (db w) = 1 then
        (case call_getCampaign c cid w of
           (Inl dbErr, w1) \<Rightarrow> w1
         | (Inr r, w1) \<Rightarrow> snd (Campaign_findOneAndUpdate cid (raisedEth_of env r) w1))
      else w)"

text \<open>\<^verbatim>\<open>{ error: err?.shortMessage || err?.message }\<close>\<close>

definition donate_failed :: "error \<Rightarrow> response" where
  "donate_failed err =
     status_json 500
       (ErrorBody False (if shortMessage err \<noteq> [] then shortMessage err else message err) None)"

definition donate_handler :: "'s env \<Rightarrow> donate_request \<Rightarrow> 's world \<Rightarrow> response \<times> 's world" where
  "donate_handler env req w =
     (case contract env of
        None \<Rightarrow> (status_json 503 (ErrorBody True ''Blockchain not configured'' None), w)
      | Some c \<Rightarrow>
     (case BigInt (dn_id req) of
        Inl err \<Rightarrow> (donate_failed err, w)
      | Inr cid \<Rightarrow>
     (case toString (dn_amount req) of
        Inl err \<Rightarrow> (donate_failed err, w)
      | Inr a \<Rightarrow>
     (case parseEther env a of
        Inl err \<Rightarrow> (donate_failed err, w)
      | Inr v \<Rightarrow>
     (case call_fund c cid v w of
        (Inl err, w1) \<Rightarrow> (donate_failed err, w1)
      | (Inr t, w1) \<Rightarrow>
     (case call_wait t w1 of
        (Inl err, w2) \<Rightarrow> (donate_failed err, w2)
      | (Inr rcpt, w2) \<Rightarrow>
          (json (Donated ''Donation successful!'' (hash t)), donate_sync env c cid w2)))))))"

section \<open>Reading one campaign\<close>

text \<open>
  The \<^verbatim>\<open>:id\<close> segment of the path is text. \<open>IntText i\<close> is an integer literal, which
  \<^verbatim>\<open>BigInt\<close> and \<^verbatim>\<open>Number\<close> both read as \<open>i\<close>. \<open>DecimalText q\<close> is any other text that
  \<^verbatim>\<open>Number\<close> reads as the finite number \<open>q\<close> (\<^verbatim>\<open>1.5\<close>, \<^verbatim>\<open>1e3\<close>); \<^verbatim>\<open>BigInt\<close> rejects it.
  \<open>NonNumeric\<close> is text that \<^verbatim>\<open>Number\<close> reads as \<^verbatim>\<open>NaN\<close> and \<^verbatim>\<open>BigInt\<close> rejects.
\<close>

datatype idtext = IntText int | DecimalText rat | NonNumeric

fun BigInt_text :: "idtext \<Rightarrow> int result" where
  "BigInt_text (IntText i) = Inr i"
| "BigInt_text _ = Inl (Error [] [] ''Cannot convert to a BigInt'' [])"

text \<open>\<open>None\<close> is \<^verbatim>\<open>NaN\<close>.\<close>

fun Number_text :: "idtext \<Rightarrow> rat option" where
  "Number_text (IntText i) = Some (of_int i)"
| "Number_text (DecimalText q) = Some q"
| "Number_text NonNumeric = None"

text \<open>\<^verbatim>\<open>BigInt(x)\<close> for a number: a \<^verbatim>\<open>RangeError\<close> unless \<open>x\<close> is an integer.\<close>

definition BigInt_number :: "rat \<Rightarrow> int result" where
  "BigInt_number q =
     (if of_int \<lfloor>q\<rfloor> = q then Inr \<lfloor>q\<rfloor>
      else Inl (Error [] [] ''The number cannot be converted to a BigInt'' []))"

subsection \<open>\<^verbatim>\<open>GET /campaign/:id\<close> in \<^verbatim>\<open>index.js\<close>\<close>

definition campaign_view_of :: "'s env \<Rightarrow> int \<Rightarrow> campaign \<Rightarrow> campaign_view" where
  "campaign_view_of env i r =
     \<lparr>cv_id = i,
      cv_creator = creator r,
      cv_title = title r,
      cv_description = description r,
      cv_goalEth = formatEther env (goal r),
      cv_amountCollectedEth = formatEther env (amountCollected r),
      cv_deadline = deadline r\<rparr>"

definition get_campaign :: "'s env \<Rightarrow> idtext \<Rightarrow> 's world \<Rightarrow> response \<times> 's world" where
  "get_campaign env param w =
     (case contract env of
        None \<Rightarrow> (status_json 503 (ErrorBody False ''Blockchain not configured'' None), w)
      | Some c \<Rightarrow>
     (case BigInt_text param of
        Inl err \<Rightarrow> (status_json 500 (ErrorBody False ''Could not fetch campaign'' None), w)
      | Inr i \<Rightarrow>
     (case call_campaignCount c w of
        (Inl err, w1) \<Rightarrow> (status_json 500 (ErrorBody False ''Could not fetch campaign'' None), w1)
      | (Inr totalN, w1) \<Rightarrow>
          if i > int totalN then (status_json 404 (ErrorBody False ''Not found'' None), w1)
          else
     (case call_getCampaign c i w1 of
        (Inl err, w2) \<Rightarrow> (status_json 500 (ErrorBody False ''Could not fetch campaign'' None), w2)
      | (Inr r, w2) \<Rightarrow> (json (CampaignView (campaign_view_of env i r)), w2)))))"

subsection \<open>\<^verbatim>\<open>getCampaignFromBlockchain\<close> in \<^verbatim>\<open>controllers/campaignController.js\<close>\<close>

definition controller_fetch_failed :: "error \<Rightarrow> response" where
  "controller_fetch_failed err =
     status_json 500 (ErrorBody False (''Could not fetch campaign: '' @ message_or_err err) None)"

definition getCampaignFromBlockchain :: "'s env \<Rightarrow> idtext \<Rightarrow> 's world \<Rightarrow> response \<times> 's world" where
  "getCampaignFromBlockchain env param w =
     (case contract env of
        None \<Rightarrow> (status_json 503 (ErrorBody False ''Blockchain not configured'' None), w)
      | Some c \<Rightarrow>
     (case call_campaignCount c w of
        (Inl err, w1) \<Rightarrow> (controller_fetch_failed err, w1)
      | (Inr totalN, w1) \<Rightarrow>
     (case Number_text param of
        None \<Rightarrow> (status_json 404 (ErrorBody False ''Not found'' None), w1)
      | Some q \<Rightarrow>
          if q < 0 \<or> q \<ge> of_nat totalN
          then (status_json 404 (ErrorBody False ''Not found'' None), w1)
          else
     (case BigInt_number q of
        Inl err \<Rightarrow> (controller_fetch_failed err, w1)
      | Inr i \<Rightarrow>
     (case call_getCampaign c i w1 of
        (Inl err, w2) \<Rightarrow> (controller_fetch_failed err, w2)
      | (Inr r, w2) \<Rightarrow> (json (CampaignView (campaign_view_of env i r)), w2))))))"

section \<open>Re-reading the raised amount: \<^verbatim>\<open>POST /sync-campaign\<close> in \<^verbatim>\<open>index.js\<close>\<close>

text \<open>
  The client sends \<^verbatim>\<open>campaignId: parseInt(id)\<close>, a number. \<^verbatim>\<open>!campaignId\<close> holds for an
  absent field, for \<^verbatim>\<open>null\<close> and for zero.
\<close>

fun falsy_number :: "int field \<Rightarrow> bool" where
  "falsy_number (Value n) = (n = 0)"
| "falsy_number _ = True"

text \<open>\<^verbatim>\<open>err?.message || "Sync failed"\<close>\<close>

definition sync_failed :: "error \<Rightarrow> response" where
  "sync_failed err =
     status_json 500 (ErrorBody True (if message err \<noteq> [] then message err else ''Sync failed'') None)"

definition sync_campaign :: "'s env \<Rightarrow> int field \<Rightarrow> 's world \<Rightarrow> response \<times> 's world" where
  "sync_campaign env campaignIdField w =
     (case contract env of
        None \<Rightarrow> (status_json 503 (ErrorBody True ''Blockchain not configured'' None), w)
      | Some c \<Rightarrow>
          if falsy_number campaignIdField
          then (status_json 400 (ErrorBody True ''campaignId is required'' None), w)
          else
     (case BigInt campaignIdField of
        Inl err \<Rightarrow> (sync_failed err, w)
      | Inr cid \<Rightarrow>
     (case call_getCampaign c cid w of
        (Inl err, w1) \<Rightarrow> (sync_failed err, w1)
      | (Inr r, w1) \<Rightarrow>
          if readyState (db w1) = 1 then
            (case Campaign_findOneAndUpdate cid (raisedEth_of env r) w1 of
               (Inl err, w2) \<Rightarrow> (sync_failed err, w2)
             | (Inr None, w2) \<Rightarrow>
                 (json (Synced (raisedEth_of env r) (Some ''Campaign not found in MongoDB metadata'')),
                  w2)
             | (Inr (Some updated), w2) \<Rightarrow> (json (Synced (raisedEth_of env r) None), w2))
          else
            (json (Synced (raisedEth_of env r) (Some ''MongoDB not connected - sync skipped'')),
             w1))))"

section \<open>The ledger contract\<close>

text \<open>
  Modelled from the spec: the contract \<^verbatim>\<open>CrowdFund\<close> itself (its Solidity source and its ABI)
  is missing from the sources. The specification fixes what is used here: campaigns are
  numbered in creation order from 1, so that with \<open>count\<close> campaigns the valid identifiers
  are \<open>1..count\<close>; \<^verbatim>\<open>campaignCount()\<close> is the current count; \<^verbatim>\<open>getCampaign(id)\<close> fails with
  \<open>NotFound\<close> outside that range; \<^verbatim>\<open>createCampaign\<close> appends one campaign with nothing
  collected and emits a creation event carrying the new identifier; \<^verbatim>\<open>fund(id)\<close> adds the
  attached value to \<^verbatim>\<open>amountCollected\<close>. The deadline is taken as the block time plus the
  duration in days; the campaign's creator is the signer.
\<close>

record ledger =
  stored :: "campaign list"
  signer :: string
  now :: nat
  height :: nat

definition NotFound :: error where
  "NotFound = Error ''NotFound'' [] ''no such campaign'' ''CALL_EXCEPTION''"

definition Reverted :: error where
  "Reverted = Error ''Reverted'' [] ''transaction reverted'' ''CALL_EXCEPTION''"

definition ledger_count :: "ledger \<Rightarrow> nat" where
  "ledger_count l = length (stored l)"

definition ledger_fetch :: "int \<Rightarrow> ledger \<Rightarrow> campaign result" where
  "ledger_fetch i l =
     (if 1 \<le> i \<and> i \<le> int (ledger_count l) then Inr (stored l ! nat (i - 1)) else Inl NotFound)"

definition ledger_create :: "string \<Rightarrow> string \<Rightarrow> nat \<Rightarrow> int \<Rightarrow> ledger \<Rightarrow> ledger" where
  "ledger_create t d g n l =
     l\<lparr>stored := stored l @
          [\<lparr>creator = signer l, title = t, description = d, goal = g,
            deadline = now l + nat n * 86400, amountCollected = 0\<rparr>],
       height := Suc (height l)\<rparr>"

definition ledger_fund :: "int \<Rightarrow> nat \<Rightarrow> ledger \<Rightarrow> ledger" where
  "ledger_fund i v l =
     l\<lparr>stored := (stored l)[nat (i - 1) :=
          (stored l ! nat (i - 1))\<lparr>amountCollected := amountCollected (stored l ! nat (i - 1)) + v\<rparr>],
       height := Suc (height l)\<rparr>"

text \<open>
  The contract object over such a ledger, on a network that answers every call and with
  no other writer: a submitted transaction changes the ledger when it is waited for.
  \<open>abi_has_event\<close> says whether the ABI the server has loaded describes the creation event;
  if not, \<^verbatim>\<open>parseLog\<close> returns \<^verbatim>\<open>null\<close> for the log.
\<close>

definition creation_receipt :: "bool \<Rightarrow> ledger \<Rightarrow> receipt" where
  "creation_receipt abi_has_event l =
     \<lparr>blockNumber = Suc (height l),
      logs = [if abi_has_event
              then Inr (Some (ParsedLog ''CampaignCreated'' (Suc (ledger_count l))))
              else Inr None]\<rparr>"

definition ledger_contract :: "bool \<Rightarrow> ledger contract" where
  "ledger_contract abi_has_event =
     \<lparr>campaignCount = (\<lambda>l. (Inr (ledger_count l), l)),
      getCampaign = (\<lambda>i l. (ledger_fetch i l, l)),
      createCampaign = (\<lambda>t d g n l.
        if n < 0 then (Inl Reverted, l)
        else (Inr \<lparr>hash = ''0xc0'',
                   wait = (\<lambda>l'. (Inr (creation_receipt abi_has_event l'), ledger_create t d g n l'))\<rparr>,
              l)),
      fund = (\<lambda>i v l.
        if 1 \<le> i \<and> i \<le> int (ledger_count l)
        then (Inr \<lparr>hash = ''0xf0'',
                   wait = (\<lambda>l'. (Inr \<lparr>blockNumber = Suc (height l'), logs = []\<rparr>,
                                  ledger_fund i v l'))\<rparr>,
              l)
        else (Inl Reverted, l))\<rparr>"

section \<open>Sample environments\<close>

text \<open>
  Concrete values at which the theorems below are instantiated: conversions for whole
  amounts of ether, a campaign, a ledger with four campaigns, a connected empty store, and
  a contract with five campaigns on which the fetch of the third fails.
\<close>

definition ether :: nat where
  "ether = 10 ^ 18"

definition sample_env :: "'s contract option \<Rightarrow> 's env" where
  "sample_env c =
     \<lparr>contract = c,
      parseEther = (\<lambda>t. if t = ''1'' then Inr ether else if t = ''2'' then Inr (2 * ether)
                         else Inl (Error [] ''invalid FixedNumber string value'' [] ''INVALID_ARGUMENT'')),
      formatEther = (\<lambda>v. if v = 0 then ''0.0'' else if v = ether then ''1.0'' else ''2.0''),
      parseFloat = (\<lambda>t. if t = ''1'' \<or> t = ''1.0'' then 1 else if t = ''0.0'' then 0 else 2)\<rparr>"

definition sample_campaign :: campaign where
  "sample_campaign =
     \<lparr>creator = ''0xA1'', title = ''A'', description = ''d'', goal = ether,
      deadline = 1700000000, amountCollected = 0\<rparr>"

definition sample_ledger :: ledger where
  "sample_ledger =
     \<lparr>stored = replicate 4 sample_campaign, signer = ''0xA1'', now = 1700000000, height = 7\<rparr>"

definition sample_store :: store where
  "sample_store = \<lparr>readyState = 1, docs = [], fault = None\<rparr>"

definition sample_world :: "'s \<Rightarrow> store \<Rightarrow> 's world" where
  "sample_world s st = \<lparr>chain = s, calls = [], db = st, randoms = (\<lambda>k. 1 / 4), drawn = 0\<rparr>"

definition sample_request :: create_request where
  "sample_request =
     \<lparr>rq_title = Value ''A'', rq_description = Value ''d'', rq_goal = Value ''1'',
      rq_durationInDays = Undefined, rq_user = ''u1''\<rparr>"

definition NetworkUnavailable :: error where
  "NetworkUnavailable = Error [] [] ''could not detect network'' ''NETWORK_ERROR''"

definition gap_fetch :: "nat \<Rightarrow> campaign result" where
  "gap_fetch k = (if k = 3 then Inl NetworkUnavailable else Inr sample_campaign)"

definition gap_contract :: "unit contract" where
  "gap_contract =
     \<lparr>campaignCount = (\<lambda>s. (Inr 5, s)),
      getCampaign = (\<lambda>i s. (gap_fetch (nat i), s)),
      createCampaign = (\<lambda>t d g n s. (Inl NetworkUnavailable, s)),
      fund = (\<lambda>i v s. (Inl NetworkUnavailable, s))\<rparr>"

text \<open>A contract behind a network that is down: every call fails.\<close>

definition down_contract :: "unit contract" where
  "down_contract =
     \<lparr>campaignCount = (\<lambda>s. (Inl NetworkUnavailable, s)),
      getCampaign = (\<lambda>i s. (Inl NetworkUnavailable, s)),
      createCampaign = (\<lambda>t d g n s. (Inl NetworkUnavailable, s)),
      fund = (\<lambda>i v s. (Inl NetworkUnavailable, s))\<rparr>"

text \<open>
  A contract on which a creation is confirmed in block 8 with a log the loaded ABI does
  not describe, and on which every read fails afterwards.
\<close>

definition blind_contract :: "unit contract" where
  "blind_contract =
     \<lparr>campaignCount = (\<lambda>s. (Inl NetworkUnavailable, s)),
      getCampaign = (\<lambda>i s. (Inl NetworkUnavailable, s)),
      createCampaign = (\<lambda>t d g n s.
        (Inr \<lparr>hash = ''0xc0'', wait = (\<lambda>s'. (Inr \<lparr>blockNumber = 8, logs = [Inr None]\<rparr>, s'))\<rparr>, s)),
      fund = (\<lambda>i v s. (Inl NetworkUnavailable, s))\<rparr>"

definition CacheUnavailable :: error where
  "CacheUnavailable = Error [] [] ''connection to the store lost'' []"

definition faulty_store :: store where
  "faulty_store = \<lparr>readyState = 1, docs = [], fault = Some CacheUnavailable\<rparr>"

text \<open>A store whose document for campaign 2 holds an outdated amount.\<close>

definition stale_doc :: doc where
  "stale_doc =
     \<lparr>d_title = ''A'', d_description = ''d'', targetEth = 1, raisedEth = Some 2,
      d_creator = ''u1'', txHash = ''0xc0'', campaignId = 2\<rparr>"

definition stale_store :: store where
  "stale_store = \<lparr>readyState = 1, docs = [stale_doc], fault = None\<rparr>"

definition sample_donation :: donate_request where
  "sample_donation = \<lparr>dn_id = Value 2, dn_amount = Value ''1''\<rparr>"

section \<open>Facts about the ledger calls and the two enumeration loops\<close>

declare campaigns_loop.simps [simp del]
declare fetchAll_loop.simps [simp del]



lemma call_campaignCount_fst:
  "fst (call_campaignCount c w) = fst (campaignCount c (chain w))"
  by (simp add: call_campaignCount_def split: prod.splits)

lemma call_getCampaign_stable:
  "getCampaign c i s = (r, s) \<Longrightarrow> chain w = s \<Longrightarrow>
   call_getCampaign c i w = (r, w\<lparr>calls := calls w @ [GetCampaign i]\<rparr>)"
  by (simp add: call_getCampaign_def)

lemma call_campaignCount_stable:
  "campaignCount c s = (r, s) \<Longrightarrow> chain w = s \<Longrightarrow>
   call_campaignCount c w = (r, w\<lparr>calls := calls w @ [CampaignCount]\<rparr>)"
  by (simp add: call_campaignCount_def)

lemma campaigns_loop_step:
  "i \<le> n \<Longrightarrow> call_getCampaign c (int i) w = (r, w') \<Longrightarrow>
   campaigns_loop env c i n cs w =
     campaigns_loop env c (Suc i) n
       (case r of Inl e \<Rightarrow> cs | Inr res \<Rightarrow> cs @ [campaign_item_of env i res]) w'"
  by (cases r) (simp_all add: campaigns_loop.simps[of env c i n cs w])

lemma campaigns_loop_stop:
  "\<not> i \<le> n \<Longrightarrow> campaigns_loop env c i n cs w = (cs, w)"
  by (simp add: campaigns_loop.simps[of env c i n cs w])



lemma campaigns_loop_stable:
  assumes fetch: "\<forall>k. getCampaign c (int k) s = (fetch k, s)"
  shows "chain w = s \<Longrightarrow>
    fst (campaigns_loop env c i n cs w) =
      cs @ map (\<lambda>k. campaign_item_of env k (projr (fetch k)))
             (filter (\<lambda>k. \<not> isl (fetch k)) [i..<Suc n])"
proof (induction "Suc n - i" arbitrary: i cs w)
  case 0
  then have "\<not> i \<le> n" by simp
  then show ?case by (simp add: campaigns_loop_stop)
next
  case (Suc m)
  then have le: "i \<le> n" by simp
  have rw: "call_getCampaign c (int i) w = (fetch i, w\<lparr>calls := calls w @ [GetCampaign (int i)]\<rparr>)"
    by (rule call_getCampaign_stable) (use fetch Suc(3) in auto)
  have m: "m = Suc n - Suc i" using Suc(2) by simp
  have ch: "chain (w\<lparr>calls := calls w @ [GetCampaign (int i)]\<rparr>) = s" using Suc(3) by simp
  have upt: "[i..<Suc n] = i # [Suc i..<Suc n]" using le by (simp add: upt_conv_Cons)
  show ?case
    by (cases "fetch i") (simp_all add: campaigns_loop_step[OF le rw] Suc(1)[OF m ch] upt del: upt_Suc)
qed

lemma fetchAll_loop_step:
  "i \<le> n \<Longrightarrow> call_getCampaign c (int i) w = (r, w') \<Longrightarrow>
   fetchAll_loop c i n cs w =
     fetchAll_loop c (Suc i) n
       (case r of Inl e \<Rightarrow> cs | Inr res \<Rightarrow> cs @ [raw_campaign_of i res]) w'"
  by (cases r) (simp_all add: fetchAll_loop.simps[of c i n cs w])

lemma fetchAll_loop_stop:
  "\<not> i \<le> n \<Longrightarrow> fetchAll_loop c i n cs w = (cs, w)"
  by (simp add: fetchAll_loop.simps[of c i n cs w])



lemma fetchAll_loop_stable:
  assumes fetch: "\<forall>k. getCampaign c (int k) s = (fetch k, s)"
  shows "chain w = s \<Longrightarrow>
    fst (fetchAll_loop c i n cs w) =
      cs @ map (\<lambda>k. raw_campaign_of k (projr (fetch k)))
             (filter (\<lambda>k. \<not> isl (fetch k)) [i..<Suc n])"
proof (induction "Suc n - i" arbitrary: i cs w)
  case 0
  then have "\<not> i \<le> n" by simp
  then show ?case by (simp add: fetchAll_loop_stop)
next
  case (Suc m)
  then have le: "i \<le> n" by simp
  have rw: "call_getCampaign c (int i) w = (fetch i, w\<lparr>calls := calls w @ [GetCampaign (int i)]\<rparr>)"
    by (rule call_getCampaign_stable) (use fetch Suc(3) in auto)
  have m: "m = Suc n - Suc i" using Suc(2) by simp
  have ch: "chain (w\<lparr>calls := calls w @ [GetCampaign (int i)]\<rparr>) = s" using Suc(3) by simp
  have upt: "[i..<Suc n] = i # [Suc i..<Suc n]" using le by (simp add: upt_conv_Cons)
  show ?case
    by (cases "fetch i") (simp_all add: fetchAll_loop_step[OF le rw] Suc(1)[OF m ch] upt del: upt_Suc)
qed


section \<open>Listing: what is enumerated\<close>

lemma normalize_id: "map normalize out = out"
  by (induction out) (simp_all add: normalize_def)

text \<open>
  C4. Enumeration is resilient to fetches that fail. Let the count read give \<open>n\<close> and let
  \<open>fetch k\<close> be the outcome of \<^verbatim>\<open>getCampaign(k)\<close>, whatever set of identifiers it fails on.
  Then \<^verbatim>\<open>GET /campaigns\<close> answers 200 with, and \<^verbatim>\<open>fetchAllCampaigns\<close> returns, exactly one
  entry for each identifier of \<open>1..n\<close> whose fetch succeeds, in order: a failing identifier
  is left out and nothing else is, and the enumeration runs to the end.
\<close>

theorem enumeration_skips_failed_fetches:
  assumes "contract env = Some c" and "chain w = s"
    and "campaignCount c s = (Inr n, s)"
    and "\<forall>k. getCampaign c (int k) s = (fetch k, s)"
  shows "fst (get_campaigns env w) =
           json (Campaigns (map (\<lambda>k. campaign_item_of env k (projr (fetch k)))
                              (filter (\<lambda>k. \<not> isl (fetch k)) [1..<Suc n])))
       \<and> fst (fetchAllCampaigns (contract env) w) =
           Inr (map (\<lambda>k. raw_campaign_of k (projr (fetch k)))
                  (filter (\<lambda>k. \<not> isl (fetch k)) [1..<Suc n]))"
proof -
  let ?w1 = "w\<lparr>calls := calls w @ [CampaignCount]\<rparr>"
  have cnt: "call_campaignCount c w = (Inr n, ?w1)"
    by (rule call_campaignCount_stable) (use assms in auto)
  have ch: "chain ?w1 = s" using assms(2) by simp
  have a: "fst (campaigns_loop env c 1 n [] ?w1) =
      map (\<lambda>k. campaign_item_of env k (projr (fetch k))) (filter (\<lambda>k. \<not> isl (fetch k)) [1..<Suc n])"
    using campaigns_loop_stable[OF assms(4) ch, of env 1 n "[]"] by simp
  have b: "fst (fetchAll_loop c 1 n [] ?w1) =
      map (\<lambda>k. raw_campaign_of k (projr (fetch k))) (filter (\<lambda>k. \<not> isl (fetch k)) [1..<Suc n])"
    using fetchAll_loop_stable[OF assms(4) ch, of 1 n "[]"] by simp
  have "fst (get_campaigns env w) =
           json (Campaigns (map (\<lambda>k. campaign_item_of env k (projr (fetch k)))
                              (filter (\<lambda>k. \<not> isl (fetch k)) [1..<Suc n])))"
  proof (cases "n = 0")
    case True
    then show ?thesis by (simp add: get_campaigns_def assms(1) cnt)
  next
    case False
    then show ?thesis using a
      by (simp add: get_campaigns_def assms(1) cnt case_prod_beta del: upt_Suc)
  qed
  moreover have "fst (fetchAllCampaigns (contract env) w) =
           Inr (map (\<lambda>k. raw_campaign_of k (projr (fetch k)))
                  (filter (\<lambda>k. \<not> isl (fetch k)) [1..<Suc n]))"
    using b by (simp add: fetchAllCampaigns_def assms(1) cnt normalize_id case_prod_beta del: upt_Suc)
  ultimately show ?thesis by simp
qed

theorem enumeration_skips_failed_fetches_witness:
  "contract (sample_env (Some gap_contract)) = Some gap_contract
   \<and> campaignCount gap_contract () = (Inr 5, ())
   \<and> (\<forall>k. getCampaign gap_contract (int k) () = (gap_fetch k, ()))
   \<and> fst (get_campaigns (sample_env (Some gap_contract)) (sample_world () sample_store)) =
       json (Campaigns (map (\<lambda>k. campaign_item_of (sample_env (Some gap_contract)) k sample_campaign)
                          [1, 2, 4, 5]))
   \<and> fst (fetchAllCampaigns (contract (sample_env (Some gap_contract))) (sample_world () sample_store)) =
       Inr (map (\<lambda>k. raw_campaign_of k sample_campaign) [1, 2, 4, 5])"
proof -
  have h1: "contract (sample_env (Some gap_contract)) = Some gap_contract"
    by (simp add: sample_env_def)
  have h2: "chain (sample_world () sample_store) = ()" by simp
  have h3: "campaignCount gap_contract () = (Inr 5, ())" by (simp add: gap_contract_def)
  have h4: "\<forall>k. getCampaign gap_contract (int k) () = (gap_fetch k, ())"
    by (simp add: gap_contract_def)
  have f: "filter (\<lambda>k. \<not> isl (gap_fetch k)) [1..<Suc 5] = [1, 2, 4, 5]"
    by (simp add: upt_rec gap_fetch_def)
  have p: "\<And>F :: nat \<Rightarrow> campaign \<Rightarrow> 'a.
             map (\<lambda>k. F k (projr (gap_fetch k))) [1, 2, 4, 5] = map (\<lambda>k. F k sample_campaign) [1, 2, 4, 5]"
    by (simp add: gap_fetch_def)
  note t = enumeration_skips_failed_fetches[OF h1 h2 h3 h4, unfolded f p]
  show ?thesis using t h1 h3 h4 by blast
qed



section \<open>Listing when the ledger is unavailable\<close>

lemma get_campaigns_unconfigured:
  "contract env = None \<Longrightarrow> get_campaigns env w = (json (Campaigns []), w)"
  by (simp add: get_campaigns_def)

text \<open>
  C5, as amended. When the ledger client is unconfigured or the count read fails,
  \<^verbatim>\<open>GET /campaigns\<close> of \<^verbatim>\<open>index.js\<close> answers 200 with the empty sequence. The controller
  \<^verbatim>\<open>getAllBlockchainCampaigns\<close> does not: it answers 503 when the client is unconfigured and
  500, with the message of the failure, when the count read fails.
\<close>

theorem list_empty_or_error_when_ledger_unavailable:
  "(contract env = None \<longrightarrow>
      fst (get_campaigns env w) = json (Campaigns [])
    \<and> fst (getAllBlockchainCampaigns env w) =
        status_json 503 (ErrorBody False ''Blockchain not configured'' None))
 \<and> (\<forall>c e. contract env = Some c \<and> fst (campaignCount c (chain w)) = Inl e \<longrightarrow>
      fst (get_campaigns env w) = json (Campaigns [])
    \<and> fst (getAllBlockchainCampaigns env w) =
        status_json 500 (ErrorBody False (''Could not fetch campaigns: '' @ message_or_err e) None))"
proof (intro conjI impI allI)
  assume "contract env = None"
  then show "fst (get_campaigns env w) = json (Campaigns [])"
    and "fst (getAllBlockchainCampaigns env w) =
        status_json 503 (ErrorBody False ''Blockchain not configured'' None)"
    by (simp_all add: get_campaigns_def getAllBlockchainCampaigns_def)
next
  fix c e
  assume h: "contract env = Some c \<and> fst (campaignCount c (chain w)) = Inl e"
  then have cnt: "fst (call_campaignCount c w) = Inl e"
    by (simp add: call_campaignCount_fst)
  obtain w1 where w1: "call_campaignCount c w = (Inl e, w1)"
    using cnt by (cases "call_campaignCount c w") auto
  show "fst (get_campaigns env w) = json (Campaigns [])"
    using h by (simp add: get_campaigns_def w1)
  show "fst (getAllBlockchainCampaigns env w) =
        status_json 500 (ErrorBody False (''Could not fetch campaigns: '' @ message_or_err e) None)"
    using h by (simp add: getAllBlockchainCampaigns_def fetchAllCampaigns_def w1)
qed

text \<open>
  C5 as stated fails for the controller: with no contract configured its listing is an
  error response.
\<close>

theorem controller_list_errors_when_unconfigured:
  "fst (getAllBlockchainCampaigns (sample_env (None :: unit contract option))
          (sample_world () sample_store)) =
     \<lparr>status = 503, body = ErrorBody False ''Blockchain not configured'' None\<rparr>"
  by (simp add: getAllBlockchainCampaigns_def sample_env_def status_json_def)

theorem list_empty_or_error_when_ledger_unavailable_witness:
  "contract (sample_env (None :: unit contract option)) = None
   \<and> fst (get_campaigns (sample_env (None :: unit contract option)) (sample_world () sample_store)) =
       \<lparr>status = 200, body = Campaigns []\<rparr>
   \<and> contract (sample_env (Some down_contract)) = Some down_contract
   \<and> fst (campaignCount down_contract (chain (sample_world () sample_store))) = Inl NetworkUnavailable
   \<and> fst (get_campaigns (sample_env (Some down_contract)) (sample_world () sample_store)) =
       \<lparr>status = 200, body = Campaigns []\<rparr>
   \<and> status (fst (getAllBlockchainCampaigns (sample_env (Some down_contract))
                      (sample_world () sample_store))) = 500"
proof -
  have h1: "contract (sample_env (None :: unit contract option)) = None"
    by (simp add: sample_env_def)
  have h2: "contract (sample_env (Some down_contract)) = Some down_contract"
    by (simp add: sample_env_def)
  have h3: "fst (campaignCount down_contract (chain (sample_world () sample_store))) = Inl NetworkUnavailable"
    by (simp add: down_contract_def)
  from list_empty_or_error_when_ledger_unavailable
         [of "sample_env (None :: unit contract option)" "sample_world () sample_store"] h1
  have a: "fst (get_campaigns (sample_env (None :: unit contract option)) (sample_world () sample_store)) =
       json (Campaigns [])" by blast
  from list_empty_or_error_when_ledger_unavailable
         [of "sample_env (Some down_contract)" "sample_world () sample_store"] h2 h3
  have b: "fst (get_campaigns (sample_env (Some down_contract)) (sample_world () sample_store)) =
       json (Campaigns [])
     \<and> fst (getAllBlockchainCampaigns (sample_env (Some down_contract)) (sample_world () sample_store)) =
        status_json 500 (ErrorBody False (''Could not fetch campaigns: '' @ message_or_err NetworkUnavailable) None)"
    by blast
  show ?thesis using a b h1 h2 h3 by (simp add: json_def status_json_def)
qed

section \<open>Reading one campaign: the range check\<close>

lemma get_campaign_above_count:
  assumes "contract env = Some c" and "fst (campaignCount c (chain w)) = Inr n" and "int n < i"
  shows "fst (get_campaign env (IntText i) w) = status_json 404 (ErrorBody False ''Not found'' None)"
proof -
  obtain w1 where w1: "call_campaignCount c w = (Inr n, w1)"
    using assms(2) call_campaignCount_fst[of c w] by (cases "call_campaignCount c w") auto
  show ?thesis using assms(1,3) by (simp add: get_campaign_def w1)
qed

lemma get_campaign_in_range:
  assumes "contract env = Some c" and "campaignCount c (chain w) = (Inr n, s)"
    and "1 \<le> i" and "i \<le> int n" and "fst (getCampaign c i s) = Inr r"
  shows "fst (get_campaign env (IntText i) w) = json (CampaignView (campaign_view_of env i r))"
  using assms
  by (simp add: get_campaign_def call_campaignCount_def call_getCampaign_def case_prod_beta)

lemma get_campaign_zero_not_404:
  "status (fst (get_campaign env (IntText 0) w)) \<noteq> 404"
  by (simp add: get_campaign_def status_json_def json_def case_prod_beta
           split: option.splits sum.splits)

lemma controller_rejects_last_identifier:
  assumes "contract env = Some c" and "fst (campaignCount c (chain w)) = Inr n"
  shows "fst (getCampaignFromBlockchain env (IntText (int n)) w) =
           status_json 404 (ErrorBody False ''Not found'' None)"
proof -
  obtain w1 where w1: "call_campaignCount c w = (Inr n, w1)"
    using assms(2) call_campaignCount_fst[of c w] by (cases "call_campaignCount c w") auto
  show ?thesis using assms(1) by (simp add: getCampaignFromBlockchain_def w1)
qed

text \<open>
  C3 at the failing input. \<^verbatim>\<open>GET /campaign/0\<close> of \<^verbatim>\<open>index.js\<close> never answers 404, whatever
  the contract does: the handler only tests \<^verbatim>\<open>id > total\<close>, so identifier 0 goes on to
  \<^verbatim>\<open>getCampaign(0)\<close>. On a ledger with four campaigns that fetch fails and the answer is 500.
  On the same ledger the controller \<^verbatim>\<open>getCampaignFromBlockchain\<close> answers 404 for
  identifier 4, which is in \<open>1..count\<close>.
\<close>

theorem get_campaign_zero_is_not_404:
  "(\<forall>env w. status (fst (get_campaign (env :: 's env) (IntText 0) w)) \<noteq> 404)
   \<and> ledger_count sample_ledger = 4
   \<and> fst (get_campaign (sample_env (Some (ledger_contract True))) (IntText 0)
            (sample_world sample_ledger sample_store)) =
       \<lparr>status = 500, body = ErrorBody False ''Could not fetch campaign'' None\<rparr>
   \<and> fst (getCampaignFromBlockchain (sample_env (Some (ledger_contract True))) (IntText 4)
            (sample_world sample_ledger sample_store)) =
       \<lparr>status = 404, body = ErrorBody False ''Not found'' None\<rparr>"
proof (intro conjI allI)
  fix env :: "'s env" and w
  show "status (fst (get_campaign env (IntText 0) w)) \<noteq> 404"
    by (rule get_campaign_zero_not_404)
next
  show "ledger_count sample_ledger = 4"
    by (simp add: ledger_count_def sample_ledger_def)
next
  show "fst (get_campaign (sample_env (Some (ledger_contract True))) (IntText 0)
            (sample_world sample_ledger sample_store)) =
       \<lparr>status = 500, body = ErrorBody False ''Could not fetch campaign'' None\<rparr>"
    by (simp add: get_campaign_def sample_env_def ledger_contract_def sample_world_def
          call_campaignCount_def call_getCampaign_def ledger_fetch_def ledger_count_def
          sample_ledger_def status_json_def)
next
  show "fst (getCampaignFromBlockchain (sample_env (Some (ledger_contract True))) (IntText 4)
            (sample_world sample_ledger sample_store)) =
       \<lparr>status = 404, body = ErrorBody False ''Not found'' None\<rparr>"
    by (simp add: getCampaignFromBlockchain_def sample_env_def ledger_contract_def sample_world_def
          call_campaignCount_def ledger_count_def sample_ledger_def status_json_def)
qed

section \<open>Creating and donating\<close>

subsection \<open>A confirmed ledger write\<close>

lemma call_createCampaign_eq:
  "createCampaign c t d g n (chain w) = (r, s) \<Longrightarrow>
   call_createCampaign c t d g n w = (r, w\<lparr>chain := s, calls := calls w @ [CreateCampaign t d g n]\<rparr>)"
  by (simp add: call_createCampaign_def)

lemma call_wait_eq:
  "wait t (chain w) = (r, s) \<Longrightarrow>
   call_wait t w = (r, w\<lparr>chain := s, calls := calls w @ [Wait (hash t)]\<rparr>)"
  by (simp add: call_wait_def)

lemma call_fund_eq:
  "fund c i v (chain w) = (r, s) \<Longrightarrow>
   call_fund c i v w = (r, w\<lparr>chain := s, calls := calls w @ [Fund i v]\<rparr>)"
  by (simp add: call_fund_def)

lemma resolveCampaignId_db: "db (snd (resolveCampaignId c rcpt w)) = db w"
  by (simp add: resolveCampaignId_def call_campaignCount_def Math_random_def case_prod_beta
           split: option.splits sum.splits)

lemma resolveCampaignId_calls:
  "calls (snd (resolveCampaignId c rcpt w)) = calls w
   \<or> calls (snd (resolveCampaignId c rcpt w)) = calls w @ [CampaignCount]"
  by (simp add: resolveCampaignId_def call_campaignCount_def Math_random_def case_prod_beta
           split: option.splits sum.splits)

lemma resolveCampaignId_ignores_db:
  "chain w' = chain w \<Longrightarrow> randoms w' = randoms w \<Longrightarrow> drawn w' = drawn w \<Longrightarrow>
   fst (resolveCampaignId c rcpt w') = fst (resolveCampaignId c rcpt w)"
  by (simp add: resolveCampaignId_def call_campaignCount_def Math_random_def case_prod_beta
           split: option.splits sum.splits)

lemma storeMetadata_calls: "calls (storeMetadata env req g h cid w) = calls w"
  by (simp add: storeMetadata_def Campaign_create_def split: option.splits)

lemma storeMetadata_docs:
  "docs (db (storeMetadata env req g h cid w)) = docs (db w)
   \<or> (\<exists>d. docs (db (storeMetadata env req g h cid w)) = docs (db w) @ [d]
          \<and> raisedEth d = Some 0 \<and> campaignId d = cid)"
  by (simp add: storeMetadata_def Campaign_create_def split: option.splits)

lemma storeMetadata_available:
  "readyState (db w) = 1 \<Longrightarrow> fault (db w) = None \<Longrightarrow>
   \<exists>d. docs (db (storeMetadata env req g h cid w)) = docs (db w) @ [d]
          \<and> raisedEth d = Some 0 \<and> campaignId d = cid"
  by (simp add: storeMetadata_def Campaign_create_def)

text \<open>The handler of index.js once the request has passed validation and the ledger write is confirmed.\<close>

lemma createCampaign_handler_confirmed:
  assumes "contract env = Some c"
    and "\<not> falsy (rq_title req)" and "\<not> falsy (rq_description req)"
    and "rq_goal req = Value g" and "parseEther env g = Inr goalWei"
    and "createCampaign c (text_of (rq_title req)) (text_of (rq_description req)) goalWei
           (nullish (rq_durationInDays req) 30) (chain w) = (Inr t, s1)"
    and "wait t s1 = (Inr rcpt, s2)"
  obtains w2 where "chain w2 = s2" and "randoms w2 = randoms w" and "drawn w2 = drawn w"
    and "db w2 = db w"
    and "calls w2 = calls w @ [CreateCampaign (text_of (rq_title req)) (text_of (rq_description req))
                         goalWei (nullish (rq_durationInDays req) 30), Wait (hash t)]"
    and "createCampaign_handler env req w =
           (json (Created ''Campaign created!'' (hash t) (Some (blockNumber rcpt))
                    (fst (resolveCampaignId c rcpt w2))),
            storeMetadata env req g (hash t) (fst (resolveCampaignId c rcpt w2))
              (snd (resolveCampaignId c rcpt w2)))"
proof -
  let ?w2 = "w\<lparr>chain := s2,
              calls := calls w @ [CreateCampaign (text_of (rq_title req)) (text_of (rq_description req))
                         goalWei (nullish (rq_durationInDays req) 30), Wait (hash t)]\<rparr>"
  have "createCampaign_handler env req w =
           (json (Created ''Campaign created!'' (hash t) (Some (blockNumber rcpt))
                    (fst (resolveCampaignId c rcpt ?w2))),
            storeMetadata env req g (hash t) (fst (resolveCampaignId c rcpt ?w2))
              (snd (resolveCampaignId c rcpt ?w2)))"
    using assms
    by (simp add: createCampaign_handler_def createCampaign_try_def call_createCampaign_eq
          call_wait_eq case_prod_beta)
  then show thesis by (intro that[of ?w2]) simp_all
qed

lemma donate_handler_confirmed:
  assumes "contract env = Some c"
    and "dn_id dreq = Value i" and "dn_amount dreq = Value a" and "parseEther env a = Inr v"
    and "fund c i v (chain w) = (Inr t, s1)" and "wait t s1 = (Inr rcpt, s2)"
  shows "donate_handler env dreq w =
     (json (Donated ''Donation successful!'' (hash t)),
      donate_sync env c i (w\<lparr>chain := s2, calls := calls w @ [Fund i v, Wait (hash t)]\<rparr>))"
  using assms
  by (simp add: donate_handler_def call_fund_eq call_wait_eq)

text \<open>
  C8. A create or donate request of \<^verbatim>\<open>index.js\<close> whose ledger write succeeds (the
  transaction is submitted and its confirmation arrives) is answered with success whatever
  state the store is in: disconnected, rejecting every operation, or healthy. The response
  does not depend on the store at all.
\<close>

theorem cache_failure_never_fails_create_or_donate:
  "(contract env = Some c
      \<and> \<not> falsy (rq_title req) \<and> \<not> falsy (rq_description req)
      \<and> rq_goal req = Value g \<and> parseEther env g = Inr goalWei
      \<and> createCampaign c (text_of (rq_title req)) (text_of (rq_description req)) goalWei
           (nullish (rq_durationInDays req) 30) (chain w) = (Inr t, s1)
      \<and> wait t s1 = (Inr rcpt, s2)
    \<longrightarrow> (\<exists>cid. \<forall>st. fst (createCampaign_handler env req (w\<lparr>db := st\<rparr>)) =
               json (Created ''Campaign created!'' (hash t) (Some (blockNumber rcpt)) cid)))
 \<and> (contract env = Some c
      \<and> dn_id dreq = Value i \<and> dn_amount dreq = Value a \<and> parseEther env a = Inr v
      \<and> fund c i v (chain w) = (Inr t', s1') \<and> wait t' s1' = (Inr rcpt', s2')
    \<longrightarrow> (\<forall>st. fst (donate_handler env dreq (w\<lparr>db := st\<rparr>)) =
               json (Donated ''Donation successful!'' (hash t'))))"
proof (intro conjI impI)
  assume h: "contract env = Some c
      \<and> \<not> falsy (rq_title req) \<and> \<not> falsy (rq_description req)
      \<and> rq_goal req = Value g \<and> parseEther env g = Inr goalWei
      \<and> createCampaign c (text_of (rq_title req)) (text_of (rq_description req)) goalWei
           (nullish (rq_durationInDays req) 30) (chain w) = (Inr t, s1)
      \<and> wait t s1 = (Inr rcpt, s2)"
  let ?w2 = "w\<lparr>chain := s2,
              calls := calls w @ [CreateCampaign (text_of (rq_title req)) (text_of (rq_description req))
                         goalWei (nullish (rq_durationInDays req) 30), Wait (hash t)]\<rparr>"
  have "\<forall>st. fst (createCampaign_handler env req (w\<lparr>db := st\<rparr>)) =
               json (Created ''Campaign created!'' (hash t) (Some (blockNumber rcpt))
                       (fst (resolveCampaignId c rcpt ?w2)))"
  proof
    fix st
    have ch: "createCampaign c (text_of (rq_title req)) (text_of (rq_description req)) goalWei
           (nullish (rq_durationInDays req) 30) (chain (w\<lparr>db := st\<rparr>)) = (Inr t, s1)"
      using h by simp
    from h have a: "contract env = Some c" "\<not> falsy (rq_title req)" "\<not> falsy (rq_description req)"
      "rq_goal req = Value g" "parseEther env g = Inr goalWei" "wait t s1 = (Inr rcpt, s2)"
      by auto
    obtain w2 where w2: "chain w2 = s2" "randoms w2 = randoms (w\<lparr>db := st\<rparr>)"
        "drawn w2 = drawn (w\<lparr>db := st\<rparr>)"
      and k: "createCampaign_handler env req (w\<lparr>db := st\<rparr>) =
           (json (Created ''Campaign created!'' (hash t) (Some (blockNumber rcpt))
                    (fst (resolveCampaignId c rcpt w2))),
            storeMetadata env req g (hash t) (fst (resolveCampaignId c rcpt w2))
              (snd (resolveCampaignId c rcpt w2)))"
      using createCampaign_handler_confirmed[OF a(1) a(2) a(3) a(4) a(5) ch a(6)] by metis
    have r: "fst (resolveCampaignId c rcpt w2) = fst (resolveCampaignId c rcpt ?w2)"
      by (rule resolveCampaignId_ignores_db) (simp_all add: w2)
    show "fst (createCampaign_handler env req (w\<lparr>db := st\<rparr>)) =
               json (Created ''Campaign created!'' (hash t) (Some (blockNumber rcpt))
                       (fst (resolveCampaignId c rcpt ?w2)))"
      by (simp only: k fst_conv r)
  qed
  then show "\<exists>cid. \<forall>st. fst (createCampaign_handler env req (w\<lparr>db := st\<rparr>)) =
               json (Created ''Campaign created!'' (hash t) (Some (blockNumber rcpt)) cid)"
    by blast
next
  assume h: "contract env = Some c
      \<and> dn_id dreq = Value i \<and> dn_amount dreq = Value a \<and> parseEther env a = Inr v
      \<and> fund c i v (chain w) = (Inr t', s1') \<and> wait t' s1' = (Inr rcpt', s2')"
  show "\<forall>st. fst (donate_handler env dreq (w\<lparr>db := st\<rparr>)) =
               json (Donated ''Donation successful!'' (hash t'))"
  proof
    fix st
    have f: "fund c i v (chain (w\<lparr>db := st\<rparr>)) = (Inr t', s1')" using h by simp
    show "fst (donate_handler env dreq (w\<lparr>db := st\<rparr>)) =
               json (Donated ''Donation successful!'' (hash t'))"
      using h donate_handler_confirmed[of env c dreq i a v "w\<lparr>db := st\<rparr>" t' s1' rcpt' s2', OF _ _ _ _ f]
      by simp
  qed
qed

lemma sample_create_hyps:
  "contract (sample_env (Some (ledger_contract b))) = Some (ledger_contract b)"
  "\<not> falsy (rq_title sample_request)" "\<not> falsy (rq_description sample_request)"
  "rq_goal sample_request = Value ''1''"
  "parseEther (sample_env (Some (ledger_contract b))) ''1'' = Inr ether"
  "rq_durationInDays sample_request = Undefined"
  "text_of (rq_title sample_request) = ''A''" "text_of (rq_description sample_request) = ''d''"
  by (simp_all add: sample_env_def sample_request_def)

lemma sample_create_tx:
  "0 \<le> n \<Longrightarrow> createCampaign (ledger_contract b) t d g n l =
     (Inr \<lparr>hash = ''0xc0'',
           wait = (\<lambda>l'. (Inr (creation_receipt b l'), ledger_create t d g n l'))\<rparr>, l)"
  by (simp add: ledger_contract_def)


lemma sample_fund_tx:
  "1 \<le> i \<Longrightarrow> i \<le> int (ledger_count l) \<Longrightarrow> fund (ledger_contract b) i v l =
     (Inr \<lparr>hash = ''0xf0'',
           wait = (\<lambda>l'. (Inr \<lparr>blockNumber = Suc (height l'), logs = []\<rparr>,
                          ledger_fund i v l'))\<rparr>, l)"
  by (simp add: ledger_contract_def)

lemma sample_ledger_count: "ledger_count sample_ledger = 4"
  by (simp add: ledger_count_def sample_ledger_def)

theorem cache_failure_never_fails_create_or_donate_witness:
  "fault faulty_store = Some CacheUnavailable
   \<and> fst (createCampaign (ledger_contract True) ''A'' ''d'' ether 30 sample_ledger) =
       Inr \<lparr>hash = ''0xc0'',
            wait = (\<lambda>l'. (Inr (creation_receipt True l'), ledger_create ''A'' ''d'' ether 30 l'))\<rparr>
   \<and> status (fst (createCampaign_handler (sample_env (Some (ledger_contract True))) sample_request
                      (sample_world sample_ledger faulty_store))) = 200
   \<and> fst (donate_handler (sample_env (Some (ledger_contract True))) sample_donation
            (sample_world sample_ledger faulty_store)) =
       \<lparr>status = 200, body = Donated ''Donation successful!'' ''0xf0''\<rparr>"
proof -
  let ?env = "sample_env (Some (ledger_contract True))"
  let ?w = "sample_world sample_ledger sample_store"
  let ?t = "\<lparr>hash = ''0xc0'',
            wait = (\<lambda>l'. (Inr (creation_receipt True l'), ledger_create ''A'' ''d'' ether 30 l'))\<rparr>"
  let ?t' = "\<lparr>hash = ''0xf0'',
           wait = (\<lambda>l'. (Inr \<lparr>blockNumber = Suc (height l'), logs = []\<rparr>,
                          ledger_fund 2 ether l'))\<rparr>"
  have c: "createCampaign (ledger_contract True) (text_of (rq_title sample_request))
             (text_of (rq_description sample_request)) ether
             (nullish (rq_durationInDays sample_request) 30) (chain ?w) = (Inr ?t, sample_ledger)"
    by (simp add: sample_create_hyps sample_create_tx sample_world_def)
  have wt: "wait ?t sample_ledger =
              (Inr (creation_receipt True sample_ledger), ledger_create ''A'' ''d'' ether 30 sample_ledger)"
    by simp
  have f: "fund (ledger_contract True) 2 ether (chain ?w) = (Inr ?t', sample_ledger)"
    by (simp add: sample_fund_tx sample_ledger_count sample_world_def)
  have wt': "wait ?t' sample_ledger =
               (Inr \<lparr>blockNumber = Suc (height sample_ledger), logs = []\<rparr>,
                ledger_fund 2 ether sample_ledger)"
    by simp
  have d: "dn_id sample_donation = Value 2" "dn_amount sample_donation = Value ''1''"
    by (simp_all add: sample_donation_def)
  have w: "?w\<lparr>db := faulty_store\<rparr> = sample_world sample_ledger faulty_store"
    by (simp add: sample_world_def)
  note t = cache_failure_never_fails_create_or_donate
             [of ?env "ledger_contract True" sample_request "''1''" ether ?w ?t sample_ledger
                 "creation_receipt True sample_ledger"
                 "ledger_create ''A'' ''d'' ether 30 sample_ledger"
                 sample_donation 2 "''1''" ether ?t' sample_ledger
                 "\<lparr>blockNumber = Suc (height sample_ledger), logs = []\<rparr>"
                 "ledger_fund 2 ether sample_ledger"]
  from t c wt sample_create_hyps(1-5)
  obtain cid where "\<forall>st. fst (createCampaign_handler ?env sample_request (?w\<lparr>db := st\<rparr>)) =
               json (Created ''Campaign created!'' (hash ?t)
                 (Some (blockNumber (creation_receipt True sample_ledger))) cid)"
    by blast
  then have a: "status (fst (createCampaign_handler ?env sample_request (?w\<lparr>db := faulty_store\<rparr>))) = 200"
    by (simp add: json_def)
  from t f wt' d sample_create_hyps(1,5)
  have "\<forall>st. fst (donate_handler ?env sample_donation (?w\<lparr>db := st\<rparr>)) =
               json (Donated ''Donation successful!'' (hash ?t'))"
    by blast
  then have b: "fst (donate_handler ?env sample_donation (?w\<lparr>db := faulty_store\<rparr>)) =
       \<lparr>status = 200, body = Donated ''Donation successful!'' ''0xf0''\<rparr>"
    by (simp add: json_def)
  show ?thesis using a b
    unfolding w by (simp add: faulty_store_def sample_create_tx)
qed

text \<open>
  The re-sync handler is different: its store call is not wrapped, and a store that
  rejects the update makes the request fail with 500.
\<close>

lemma sync_store_failure_is_500:
  assumes "contract env = Some c" and "\<not> falsy_number f"
    and "fst (getCampaign c (nullish f 0) (chain w)) = Inr r"
    and "readyState (db w) = 1" and "fault (db w) = Some e"
  shows "fst (sync_campaign env f w) = sync_failed e"
  using assms
  by (cases f)
     (simp_all add: sync_campaign_def call_getCampaign_def Campaign_findOneAndUpdate_def
        case_prod_beta)

subsection \<open>The default duration\<close>

lemma Campaign_create_calls: "calls (snd (Campaign_create d w)) = calls w"
  by (simp add: Campaign_create_def split: option.splits)

lemma createCampaign_handler_submits:
  assumes "contract env = Some c"
    and "\<not> falsy (rq_title req)" and "\<not> falsy (rq_description req)"
    and "rq_goal req = Value g" and "parseEther env g = Inr goalWei"
  shows "\<exists>rest. calls (snd (createCampaign_handler env req w)) =
           calls w @ CreateCampaign (text_of (rq_title req)) (text_of (rq_description req)) goalWei
                       (nullish (rq_durationInDays req) 30) # rest"
proof -
  let ?n = "nullish (rq_durationInDays req) 30"
  let ?cc = "CreateCampaign (text_of (rq_title req)) (text_of (rq_description req)) goalWei ?n"
  obtain r s1 where c: "createCampaign c (text_of (rq_title req)) (text_of (rq_description req))
      goalWei ?n (chain w) = (r, s1)"
    by (cases "createCampaign c (text_of (rq_title req)) (text_of (rq_description req)) goalWei ?n (chain w)")
  show ?thesis
  proof (cases r)
    case (Inl e)
    then show ?thesis using assms c
      by (simp add: createCampaign_handler_def createCampaign_try_def call_createCampaign_eq)
  next
    case (Inr t)
    obtain r2 s2 where wt: "wait t s1 = (r2, s2)" by (cases "wait t s1")
    show ?thesis
    proof (cases r2)
      case (Inl e)
      then show ?thesis using assms c Inr wt
        by (simp add: createCampaign_handler_def createCampaign_try_def call_createCampaign_eq
              call_wait_eq)
    next
      case (Inr rcpt)
      from createCampaign_handler_confirmed[OF assms c[unfolded \<open>r = Inr t\<close>] wt[unfolded Inr]]
      obtain w2 where w2: "calls w2 = calls w @ [?cc, Wait (hash t)]"
        and k: "createCampaign_handler env req w =
           (json (Created ''Campaign created!'' (hash t) (Some (blockNumber rcpt))
                    (fst (resolveCampaignId c rcpt w2))),
            storeMetadata env req g (hash t) (fst (resolveCampaignId c rcpt w2))
              (snd (resolveCampaignId c rcpt w2)))"
        by blast
      show ?thesis
        using resolveCampaignId_calls[of c rcpt w2]
        by (auto simp add: k storeMetadata_calls w2)
    qed
  qed
qed

lemma createCampaignOnBlockchain_submits:
  assumes "contract env = Some c"
    and "\<not> falsy (rq_title req)" and "\<not> falsy (rq_description req)"
    and "rq_goal req = Value g" and "parseEther env g = Inr goalWei"
  shows "\<exists>rest. calls (snd (createCampaignOnBlockchain env req w)) =
           calls w @ CreateCampaign (text_of (rq_title req)) (text_of (rq_description req)) goalWei
                       (nullish (rq_durationInDays req) 30) # rest"
  using assms
  by (simp add: createCampaignOnBlockchain_def call_createCampaign_def call_wait_def
        call_campaignCount_def Campaign_create_calls case_prod_beta
      split: sum.splits)

text \<open>
  C10. A create request that leaves \<^verbatim>\<open>durationInDays\<close> out (\<^verbatim>\<open>undefined\<close> or \<^verbatim>\<open>null\<close>) and
  reaches the ledger is submitted with a duration of 30 days: the first ledger call of the
  request is \<^verbatim>\<open>createCampaign(title, description, goalWei, 30)\<close>, in the handler of
  \<^verbatim>\<open>index.js\<close> and in the controller alike.
\<close>

theorem omitted_duration_defaults_to_30:
  assumes "contract env = Some c"
    and "\<not> falsy (rq_title req)" and "\<not> falsy (rq_description req)"
    and "rq_goal req = Value g" and "parseEther env g = Inr goalWei"
    and "rq_durationInDays req = Undefined \<or> rq_durationInDays req = Null"
  shows "(\<exists>rest. calls (snd (createCampaign_handler env req w)) =
           calls w @ CreateCampaign (text_of (rq_title req)) (text_of (rq_description req)) goalWei 30
                     # rest)
       \<and> (\<exists>rest. calls (snd (createCampaignOnBlockchain env req w)) =
           calls w @ CreateCampaign (text_of (rq_title req)) (text_of (rq_description req)) goalWei 30
                     # rest)"
proof -
  have n: "nullish (rq_durationInDays req) 30 = 30" using assms(6) by auto
  show ?thesis
    using createCampaign_handler_submits[OF assms(1-5), of w]
      createCampaignOnBlockchain_submits[OF assms(1-5), of w]
    by (simp only: n)
qed

theorem omitted_duration_defaults_to_30_witness:
  "rq_durationInDays sample_request = Undefined
   \<and> hd (calls (snd (createCampaign_handler (sample_env (Some (ledger_contract True))) sample_request
                       (sample_world sample_ledger sample_store)))) =
       CreateCampaign ''A'' ''d'' ether 30
   \<and> hd (calls (snd (createCampaignOnBlockchain (sample_env (Some (ledger_contract True)))
                       sample_request (sample_world sample_ledger sample_store)))) =
       CreateCampaign ''A'' ''d'' ether 30"
proof -
  have d: "rq_durationInDays sample_request = Undefined \<or> rq_durationInDays sample_request = Null"
    by (simp add: sample_request_def)
  have c: "calls (sample_world sample_ledger sample_store) = []"
    by (simp add: sample_world_def)
  note t = omitted_duration_defaults_to_30
             [OF sample_create_hyps(1-5) d, of True "sample_world sample_ledger sample_store",
              unfolded c append_Nil sample_create_hyps(7,8)]
  from t obtain rest rest' where
    "calls (snd (createCampaign_handler (sample_env (Some (ledger_contract True))) sample_request
                       (sample_world sample_ledger sample_store))) =
       CreateCampaign ''A'' ''d'' ether 30 # rest"
    "calls (snd (createCampaignOnBlockchain (sample_env (Some (ledger_contract True)))
                       sample_request (sample_world sample_ledger sample_store))) =
       CreateCampaign ''A'' ''d'' ether 30 # rest'"
    by blast
  then show ?thesis by (simp add: sample_request_def)
qed

subsection \<open>The identifier of a new campaign\<close>

lemma ledger_count_create: "ledger_count (ledger_create t d g n l) = Suc (ledger_count l)"
  by (simp add: ledger_count_def ledger_create_def)

lemma resolve_on_ledger:
  assumes "chain w2 = ledger_create t d g n l"
  shows "fst (resolveCampaignId (ledger_contract b) (creation_receipt b l) w2) = int (ledger_count l) + 1"
proof (cases b)
  case True
  then show ?thesis by (simp add: resolveCampaignId_def creation_receipt_def)
next
  case False
  have "call_campaignCount (ledger_contract b) w2 =
          (Inr (Suc (ledger_count l)), w2\<lparr>calls := calls w2 @ [CampaignCount]\<rparr>)"
    by (rule call_campaignCount_stable) (simp_all add: ledger_contract_def assms ledger_count_create)
  with False show ?thesis by (simp add: resolveCampaignId_def creation_receipt_def)
qed

text \<open>
  On the ledger of the specification, with no other writer, the handler of \<^verbatim>\<open>index.js\<close>
  reports the identifier \<open>count + 1\<close> on the event path and on the fallback path alike.
\<close>

lemma index_paths_agree_on_ledger:
  assumes "contract env = Some (ledger_contract b)"
    and "\<not> falsy (rq_title req)" and "\<not> falsy (rq_description req)"
    and "rq_goal req = Value g" and "parseEther env g = Inr goalWei"
    and "0 \<le> nullish (rq_durationInDays req) 30" and "chain w = l"
  shows "fst (createCampaign_handler env req w) =
           json (Created ''Campaign created!'' ''0xc0'' (Some (Suc (height l))) (int (ledger_count l) + 1))"
proof -
  let ?n = "nullish (rq_durationInDays req) 30"
  let ?t = "text_of (rq_title req)" and ?d = "text_of (rq_description req)"
  let ?tx = "\<lparr>hash = ''0xc0'',
             wait = (\<lambda>l'. (Inr (creation_receipt b l'), ledger_create ?t ?d goalWei ?n l'))\<rparr>"
  have c: "createCampaign (ledger_contract b) ?t ?d goalWei ?n (chain w) = (Inr ?tx, l)"
    using assms(6,7) by (simp add: sample_create_tx)
  have wt: "wait ?tx l = (Inr (creation_receipt b l), ledger_create ?t ?d goalWei ?n l)"
    by simp
  from createCampaign_handler_confirmed[OF assms(1-5) c wt]
  obtain w2 where w2: "chain w2 = ledger_create ?t ?d goalWei ?n l"
    and k: "createCampaign_handler env req w =
           (json (Created ''Campaign created!'' (hash ?tx) (Some (blockNumber (creation_receipt b l)))
                    (fst (resolveCampaignId (ledger_contract b) (creation_receipt b l) w2))),
            storeMetadata env req g (hash ?tx)
              (fst (resolveCampaignId (ledger_contract b) (creation_receipt b l) w2))
              (snd (resolveCampaignId (ledger_contract b) (creation_receipt b l) w2)))"
    by blast
  have r: "fst (resolveCampaignId (ledger_contract b) (creation_receipt b l) w2) = int (ledger_count l) + 1"
    by (rule resolve_on_ledger[OF w2])
  have bn: "blockNumber (creation_receipt b l) = Suc (height l)"
    by (simp add: creation_receipt_def)
  show ?thesis
    unfolding k fst_conv r bn by simp
qed

text \<open>The controller reports \<open>count\<close>, the identifier of the campaign before the new one.\<close>

lemma controller_off_by_one_on_ledger:
  assumes "contract env = Some (ledger_contract b)"
    and "\<not> falsy (rq_title req)" and "\<not> falsy (rq_description req)"
    and "rq_goal req = Value g" and "parseEther env g = Inr goalWei"
    and "0 \<le> nullish (rq_durationInDays req) 30" and "chain w = l"
  shows "fst (createCampaignOnBlockchain env req w) =
           json (Created ''Campaign created'' ''0xc0'' None (int (ledger_count l)))"
  using assms
  by (simp add: createCampaignOnBlockchain_def call_createCampaign_def call_wait_def
        call_campaignCount_def ledger_contract_def ledger_count_create case_prod_beta)

text \<open>
  Whatever the contract, the two count reads cannot both be right: after the same
  confirmed creation, with the count read giving \<open>n\<close>, the fallback of \<^verbatim>\<open>index.js\<close> yields
  \<open>n\<close> and the controller yields \<open>n - 1\<close>.
\<close>

lemma count_reads_differ_by_one:
  assumes "contract env = Some c"
    and "\<not> falsy (rq_title req)" and "\<not> falsy (rq_description req)"
    and "rq_goal req = Value g" and "parseEther env g = Inr goalWei"
    and "createCampaign c (text_of (rq_title req)) (text_of (rq_description req)) goalWei
           (nullish (rq_durationInDays req) 30) (chain w) = (Inr t, s1)"
    and "wait t s1 = (Inr rcpt, s2)"
    and "scanLogs (logs rcpt) = None"
    and "fst (campaignCount c s2) = Inr n"
  shows "fst (createCampaign_handler env req w) =
           json (Created ''Campaign created!'' (hash t) (Some (blockNumber rcpt)) (int n))"
    and "fst (createCampaignOnBlockchain env req w) =
           json (Created ''Campaign created'' (hash t) None (int n - 1))"
proof -
  from createCampaign_handler_confirmed[OF assms(1-7)]
  obtain w2 where w2: "chain w2 = s2"
    and k: "createCampaign_handler env req w =
           (json (Created ''Campaign created!'' (hash t) (Some (blockNumber rcpt))
                    (fst (resolveCampaignId c rcpt w2))),
            storeMetadata env req g (hash t) (fst (resolveCampaignId c rcpt w2))
              (snd (resolveCampaignId c rcpt w2)))"
    by blast
  have r: "fst (resolveCampaignId c rcpt w2) = int n"
    using assms(8,9)
    by (simp add: resolveCampaignId_def call_campaignCount_def w2 case_prod_beta)
  show "fst (createCampaign_handler env req w) =
           json (Created ''Campaign created!'' (hash t) (Some (blockNumber rcpt)) (int n))"
    by (simp only: k fst_conv r)
  show "fst (createCampaignOnBlockchain env req w) =
           json (Created ''Campaign created'' (hash t) None (int n - 1))"
    using assms
    by (simp add: createCampaignOnBlockchain_def call_createCampaign_eq call_wait_eq
          call_campaignCount_def case_prod_beta)
qed

text \<open>
  C2 at the failing input. On the ledger of the specification with four campaigns and no
  other writer, the handler of \<^verbatim>\<open>index.js\<close> yields identifier 5 on the event path and on the
  fallback path, but the count read of the controller \<^verbatim>\<open>createCampaignOnBlockchain\<close>
  (\<^verbatim>\<open>Number(campaignCount) - 1\<close>) yields 4.
\<close>

theorem fallback_count_read_disagrees_in_controller:
  "ledger_count sample_ledger = 4
   \<and> fst (createCampaign_handler (sample_env (Some (ledger_contract True))) sample_request
            (sample_world sample_ledger sample_store)) =
       \<lparr>status = 200, body = Created ''Campaign created!'' ''0xc0'' (Some 8) 5\<rparr>
   \<and> fst (createCampaign_handler (sample_env (Some (ledger_contract False))) sample_request
            (sample_world sample_ledger sample_store)) =
       \<lparr>status = 200, body = Created ''Campaign created!'' ''0xc0'' (Some 8) 5\<rparr>
   \<and> fst (createCampaignOnBlockchain (sample_env (Some (ledger_contract False))) sample_request
            (sample_world sample_ledger sample_store)) =
       \<lparr>status = 200, body = Created ''Campaign created'' ''0xc0'' None 4\<rparr>"
proof -
  have n: "0 \<le> nullish (rq_durationInDays sample_request) 30"
    by (simp add: sample_request_def)
  have ch: "chain (sample_world sample_ledger sample_store) = sample_ledger"
    by (simp add: sample_world_def)
  have h: "height sample_ledger = 7" by (simp add: sample_ledger_def)
  show ?thesis
    by (simp add: index_paths_agree_on_ledger[OF sample_create_hyps(1-5) n ch]
          controller_off_by_one_on_ledger[OF sample_create_hyps(1-5) n ch]
          sample_ledger_count h json_def)
qed

subsection \<open>The document recorded for a new campaign\<close>








subsection \<open>When the identifier cannot be resolved\<close>

lemma placeholder_identifier:
  assumes "contract env = Some c"
    and "\<not> falsy (rq_title req)" and "\<not> falsy (rq_description req)"
    and "rq_goal req = Value g" and "parseEther env g = Inr goalWei"
    and "createCampaign c (text_of (rq_title req)) (text_of (rq_description req)) goalWei
           (nullish (rq_durationInDays req) 30) (chain w) = (Inr t, s1)"
    and "wait t s1 = (Inr rcpt, s2)"
    and "scanLogs (logs rcpt) = None"
    and "fst (campaignCount c s2) = Inl e"
  shows "fst (createCampaign_handler env req w) =
           json (Created ''Campaign created!'' (hash t) (Some (blockNumber rcpt))
                   \<lfloor>randoms w (drawn w) * 1000000\<rfloor>)"
    and "readyState (db w) = 1 \<Longrightarrow> fault (db w) = None \<Longrightarrow>
         \<exists>d. docs (db (snd (createCampaign_handler env req w))) = docs (db w) @ [d]
              \<and> campaignId d = \<lfloor>randoms w (drawn w) * 1000000\<rfloor>"
proof -
  from createCampaign_handler_confirmed[OF assms(1-7)]
  obtain w2 where w2: "chain w2 = s2" "randoms w2 = randoms w" "drawn w2 = drawn w" "db w2 = db w"
    and k: "createCampaign_handler env req w =
           (json (Created ''Campaign created!'' (hash t) (Some (blockNumber rcpt))
                    (fst (resolveCampaignId c rcpt w2))),
            storeMetadata env req g (hash t) (fst (resolveCampaignId c rcpt w2))
              (snd (resolveCampaignId c rcpt w2)))"
    by blast
  have r: "fst (resolveCampaignId c rcpt w2) = \<lfloor>randoms w (drawn w) * 1000000\<rfloor>"
    using assms(8,9)
    by (simp add: resolveCampaignId_def call_campaignCount_def Math_random_def w2 case_prod_beta)
  show "fst (createCampaign_handler env req w) =
           json (Created ''Campaign created!'' (hash t) (Some (blockNumber rcpt))
                   \<lfloor>randoms w (drawn w) * 1000000\<rfloor>)"
    by (simp only: k fst_conv r)
  assume st: "readyState (db w) = 1" "fault (db w) = None"
  have d: "db (snd (resolveCampaignId c rcpt w2)) = db w"
    by (simp add: resolveCampaignId_db w2)
  from storeMetadata_available[of "snd (resolveCampaignId c rcpt w2)" env req g "hash t"
         "fst (resolveCampaignId c rcpt w2)"]
  show "\<exists>d. docs (db (snd (createCampaign_handler env req w))) = docs (db w) @ [d]
              \<and> campaignId d = \<lfloor>randoms w (drawn w) * 1000000\<rfloor>"
    by (auto simp add: k d st r)
qed

text \<open>
  C1, as amended. When the creation is confirmed, no log of the receipt parses to a
  \<^verbatim>\<open>CampaignCreated\<close> event and the fallback \<^verbatim>\<open>campaignCount()\<close> read fails, the handler of
  \<^verbatim>\<open>index.js\<close> does not fail: it answers with success and the placeholder identifier
  \<^verbatim>\<open>Math.floor(Math.random() * 1000000)\<close>, records a document with that identifier when
  the store is connected and available, and the placeholder lies in \<open>0..999999\<close> for a draw
  in \<open>[0, 1)\<close>.
\<close>

theorem unresolved_identifier_gets_random_placeholder:
  assumes "contract env = Some c"
    and "\<not> falsy (rq_title req)" and "\<not> falsy (rq_description req)"
    and "rq_goal req = Value g" and "parseEther env g = Inr goalWei"
    and "createCampaign c (text_of (rq_title req)) (text_of (rq_description req)) goalWei
           (nullish (rq_durationInDays req) 30) (chain w) = (Inr t, s1)"
    and "wait t s1 = (Inr rcpt, s2)"
    and "scanLogs (logs rcpt) = None"
    and "fst (campaignCount c s2) = Inl e"
  shows "fst (createCampaign_handler env req w) =
           json (Created ''Campaign created!'' (hash t) (Some (blockNumber rcpt))
                   \<lfloor>randoms w (drawn w) * 1000000\<rfloor>)
       \<and> (readyState (db w) = 1 \<and> fault (db w) = None \<longrightarrow>
            (\<exists>d. docs (db (snd (createCampaign_handler env req w))) = docs (db w) @ [d]
                 \<and> campaignId d = \<lfloor>randoms w (drawn w) * 1000000\<rfloor>))
       \<and> (0 \<le> randoms w (drawn w) \<and> randoms w (drawn w) < 1 \<longrightarrow>
            0 \<le> \<lfloor>randoms w (drawn w) * 1000000\<rfloor> \<and> \<lfloor>randoms w (drawn w) * 1000000\<rfloor> < 1000000)"
proof (intro conjI impI)
  show "fst (createCampaign_handler env req w) =
           json (Created ''Campaign created!'' (hash t) (Some (blockNumber rcpt))
                   \<lfloor>randoms w (drawn w) * 1000000\<rfloor>)"
    by (rule placeholder_identifier(1)[OF assms])
next
  assume "readyState (db w) = 1 \<and> fault (db w) = None"
  then show "\<exists>d. docs (db (snd (createCampaign_handler env req w))) = docs (db w) @ [d]
                 \<and> campaignId d = \<lfloor>randoms w (drawn w) * 1000000\<rfloor>"
    using placeholder_identifier(2)[OF assms] by blast
next
  assume "0 \<le> randoms w (drawn w) \<and> randoms w (drawn w) < 1"
  then show "0 \<le> \<lfloor>randoms w (drawn w) * 1000000\<rfloor>" by simp
next
  assume "0 \<le> randoms w (drawn w) \<and> randoms w (drawn w) < 1"
  then show "\<lfloor>randoms w (drawn w) * 1000000\<rfloor> < 1000000" by (simp add: floor_less_iff)
qed

lemma blind_hyps:
  "contract (sample_env (Some blind_contract)) = Some blind_contract"
  "parseEther (sample_env (Some blind_contract)) ''1'' = Inr ether"
  "createCampaign blind_contract (text_of (rq_title sample_request))
     (text_of (rq_description sample_request)) ether
     (nullish (rq_durationInDays sample_request) 30) (chain (sample_world () sample_store)) =
   (Inr \<lparr>hash = ''0xc0'', wait = (\<lambda>s'. (Inr \<lparr>blockNumber = 8, logs = [Inr None]\<rparr>, s'))\<rparr>, ())"
  "wait \<lparr>hash = ''0xc0'', wait = (\<lambda>s'. (Inr \<lparr>blockNumber = 8, logs = [Inr None]\<rparr>, s'))\<rparr> () =
   (Inr \<lparr>blockNumber = 8, logs = [Inr None]\<rparr>, ())"
  "scanLogs (logs \<lparr>blockNumber = 8, logs = [Inr None]\<rparr>) = None"
  "fst (campaignCount blind_contract ()) = Inl NetworkUnavailable"
  by (simp_all add: sample_env_def blind_contract_def)

lemma quarter_draw:
  "\<lfloor>randoms (sample_world s st) (drawn (sample_world s st)) * 1000000\<rfloor> = 250000"
  by (simp add: sample_world_def)

theorem unresolved_identifier_gets_random_placeholder_witness:
  "scanLogs (logs \<lparr>blockNumber = 8, logs = [Inr None]\<rparr>) = None
   \<and> fst (campaignCount blind_contract ()) = Inl NetworkUnavailable
   \<and> fst (createCampaign_handler (sample_env (Some blind_contract)) sample_request
            (sample_world () sample_store)) =
       \<lparr>status = 200, body = Created ''Campaign created!'' ''0xc0'' (Some 8) 250000\<rparr>"
proof -
  note t = unresolved_identifier_gets_random_placeholder
             [OF blind_hyps(1) sample_create_hyps(2-4) blind_hyps(2-6)]
  then show ?thesis using blind_hyps(5,6) by (simp add: quarter_draw json_def)
qed

text \<open>
  C1 as stated fails: on a contract whose creation is confirmed with a log the ABI does
  not describe and whose count read fails, a draw of 1/4 makes the handler answer 200 with
  the invented identifier 250000 and store a document under it.
\<close>

theorem synthetic_identifier_is_returned_and_recorded:
  "fst (createCampaign_handler (sample_env (Some blind_contract)) sample_request
          (sample_world () sample_store)) =
     \<lparr>status = 200, body = Created ''Campaign created!'' ''0xc0'' (Some 8) 250000\<rparr>
   \<and> map campaignId (docs (db (snd (createCampaign_handler (sample_env (Some blind_contract))
                                       sample_request (sample_world () sample_store))))) =
     [250000]"
proof -
  let ?env = "sample_env (Some blind_contract)"
  let ?w = "sample_world () sample_store"
  note p = placeholder_identifier[OF blind_hyps(1) sample_create_hyps(2-4) blind_hyps(2-6)]
  have st: "readyState (db ?w) = 1" "fault (db ?w) = None" "docs (db ?w) = []"
    by (simp_all add: sample_world_def sample_store_def)
  from p(2)[OF st(1,2)] obtain d where
    "docs (db (snd (createCampaign_handler ?env sample_request ?w))) = docs (db ?w) @ [d]"
    "campaignId d = 250000"
    unfolding quarter_draw by blast
  then show ?thesis using p(1) by (simp add: st(3) quarter_draw json_def)
qed

section \<open>Re-sync is idempotent\<close>

lemma update_first_again:
  "update_first n v ds = (ds', r) \<Longrightarrow> update_first n v ds' = (ds', r)"
proof (induction ds arbitrary: ds' r)
  case Nil
  then show ?case by simp
next
  case (Cons d ds)
  show ?case
  proof (cases "campaignId d = n")
    case True
    with Cons.prems show ?thesis by auto
  next
    case False
    obtain es q where e: "update_first n v ds = (es, q)" by (cases "update_first n v ds")
    with Cons.prems False have "ds' = d # es" "r = q" by auto
    with Cons.IH[OF e] False show ?thesis by simp
  qed
qed

lemma update_first_found:
  "update_first n v ds = (ds', Some u) \<Longrightarrow> u \<in> set ds' \<and> campaignId u = n \<and> raisedEth u = Some v"
proof (induction ds arbitrary: ds')
  case Nil
  then show ?case by simp
next
  case (Cons d ds)
  show ?case
  proof (cases "campaignId d = n")
    case True
    with Cons.prems show ?thesis by auto
  next
    case False
    obtain es q where e: "update_first n v ds = (es, q)" by (cases "update_first n v ds")
    with Cons.prems False have "ds' = d # es" "q = Some u" by auto
    with Cons.IH[of es] e show ?thesis by simp
  qed
qed

lemma sync_read_failed:
  assumes "contract env = Some c" and "cid \<noteq> 0" and "getCampaign c cid (chain w) = (Inl e, s)"
  shows "sync_campaign env (Value cid) w =
           (sync_failed e, w\<lparr>chain := s, calls := calls w @ [GetCampaign cid]\<rparr>)"
  using assms by (simp add: sync_campaign_def call_getCampaign_def)

lemma sync_read_ok:
  assumes "contract env = Some c" and "cid \<noteq> 0" and "getCampaign c cid (chain w) = (Inr t, s)"
  shows "sync_campaign env (Value cid) w =
     (if readyState (db w) = 1 then
        (case fault (db w) of
           Some e \<Rightarrow> (sync_failed e, w\<lparr>chain := s, calls := calls w @ [GetCampaign cid]\<rparr>)
         | None \<Rightarrow>
             (json (Synced (raisedEth_of env t)
                (case snd (update_first cid (raisedEth_of env t) (docs (db w))) of
                   None \<Rightarrow> Some ''Campaign not found in MongoDB metadata''
                 | Some updated \<Rightarrow> None)),
              w\<lparr>chain := s, calls := calls w @ [GetCampaign cid],
                db := (db w)\<lparr>docs := fst (update_first cid (raisedEth_of env t) (docs (db w)))\<rparr>\<rparr>))
      else (json (Synced (raisedEth_of env t) (Some ''MongoDB not connected - sync skipped'')),
            w\<lparr>chain := s, calls := calls w @ [GetCampaign cid]\<rparr>))"
  using assms
  by (simp add: sync_campaign_def call_getCampaign_def Campaign_findOneAndUpdate_def case_prod_beta
      split: option.splits)


text \<open>
  C7. Re-sync is idempotent. Two \<^verbatim>\<open>POST /sync-campaign\<close> requests for the same campaign in
  succession, with the ledger read returning the same both times, give the same response
  (so the same \<^verbatim>\<open>raisedEth\<close>) and leave the store after the second as it was after the
  first. The amount returned is the one computed from the tuple just read from the
  ledger, whatever the store held, and when a document was updated the store holds a
  document of that campaign with exactly that amount.
\<close>

theorem reconcileAmount_is_idempotent:
  assumes cfg: "contract env = Some c"
    and first: "sync_campaign env (Value cid) w = (r1, w1)"
    and second: "sync_campaign env (Value cid) w1 = (r2, w2)"
    and unchanged: "fst (getCampaign c cid (chain w1)) = fst (getCampaign c cid (chain w))"
  shows "r2 = r1 \<and> db w2 = db w1
       \<and> (\<forall>v warn. r1 = json (Synced v warn) \<longrightarrow>
            (\<exists>t. fst (getCampaign c cid (chain w)) = Inr t
                 \<and> v = parseFloat env (formatEther env (amountCollected t))))
       \<and> (\<forall>v. r1 = json (Synced v None) \<longrightarrow>
            (\<exists>d\<in>set (docs (db w2)). campaignId d = cid \<and> raisedEth d = Some v))"
proof (cases "cid = 0")
  case True
  from first have "r1 = status_json 400 (ErrorBody True ''campaignId is required'' None)" "w1 = w"
    by (simp_all add: sync_campaign_def cfg True)
  moreover from second have "r2 = status_json 400 (ErrorBody True ''campaignId is required'' None)"
    "w2 = w1"
    by (simp_all add: sync_campaign_def cfg True)
  ultimately show ?thesis by (simp add: json_def status_json_def)
next
  case False
  obtain ra sa where a: "getCampaign c cid (chain w) = (ra, sa)"
    by (cases "getCampaign c cid (chain w)")
  obtain rb sb where b0: "getCampaign c cid (chain w1) = (rb, sb)"
    by (cases "getCampaign c cid (chain w1)")
  have "rb = ra" using unchanged a b0 by simp
  with b0 have b: "getCampaign c cid (chain w1) = (ra, sb)" by simp
  show ?thesis
  proof (cases ra)
    case (Inl e)
    from first sync_read_failed[OF cfg False a[unfolded Inl]]
    have 1: "r1 = sync_failed e" "db w1 = db w" by auto
    from second sync_read_failed[OF cfg False b[unfolded Inl]]
    have 2: "r2 = sync_failed e" "db w2 = db w1" by auto
    show ?thesis using 1 2 by (simp add: sync_failed_def json_def status_json_def)
  next
    case (Inr t)
    let ?v = "raisedEth_of env t"
    note f = sync_read_ok[OF cfg False a[unfolded Inr]]
    note g = sync_read_ok[OF cfg False b[unfolded Inr]]
    have t: "fst (getCampaign c cid (chain w)) = Inr t" using a Inr by simp
    show ?thesis
    proof (cases "readyState (db w) = 1")
      case off: False
      from first f off have 1: "r1 = json (Synced ?v (Some ''MongoDB not connected - sync skipped''))"
        "db w1 = db w" by auto
      from second g off 1(2) have 2: "r2 = json (Synced ?v (Some ''MongoDB not connected - sync skipped''))"
        "db w2 = db w1" by auto
      show ?thesis using 1 2 t by (simp add: json_def raisedEth_of_def)
    next
      case on: True
      show ?thesis
      proof (cases "fault (db w)")
        case (Some e)
        from first f on Some have 1: "r1 = sync_failed e" "db w1 = db w" by auto
        from second g on Some 1(2) have 2: "r2 = sync_failed e" "db w2 = db w1" by auto
        show ?thesis using 1 2 by (simp add: sync_failed_def json_def status_json_def)
      next
        case None
        obtain ds q where u: "update_first cid ?v (docs (db w)) = (ds, q)"
          by (cases "update_first cid ?v (docs (db w))")
        let ?warn = "case q of None \<Rightarrow> Some ''Campaign not found in MongoDB metadata''
                     | Some updated \<Rightarrow> None"
        from first f on None u have 1: "r1 = json (Synced ?v ?warn)"
          "db w1 = (db w)\<lparr>docs := ds\<rparr>" by auto
        have u': "update_first cid ?v (docs (db w1)) = (ds, q)"
          using update_first_again[OF u] 1(2) by simp
        from second g on None u' 1(2) have 2: "r2 = json (Synced ?v ?warn)"
          "db w2 = (db w1)\<lparr>docs := ds\<rparr>" by auto
        have same: "db w2 = db w1" using 1(2) 2(2) by simp
        have stored: "\<exists>d\<in>set (docs (db w2)). campaignId d = cid \<and> raisedEth d = Some ?v"
          if "?warn = None"
        proof -
          from that obtain d where "q = Some d" by (cases q) auto
          with update_first_found[of cid ?v "docs (db w)" ds d] u
          have "d \<in> set ds \<and> campaignId d = cid \<and> raisedEth d = Some ?v" by simp
          moreover have "docs (db w2) = ds" using 2(2) by simp
          ultimately show ?thesis by blast
        qed
        show ?thesis
          using 1(1) 2(1) same t stored by (auto simp add: json_def raisedEth_of_def)
      qed
    qed
  qed
qed


lemma sample_fetch_2:
  "getCampaign (ledger_contract b) 2 sample_ledger = (Inr sample_campaign, sample_ledger)"
  by (simp add: ledger_contract_def ledger_fetch_def ledger_count_def sample_ledger_def)

lemma sample_raised: "raisedEth_of (sample_env c) sample_campaign = 0"
  by (simp add: raisedEth_of_def sample_env_def sample_campaign_def)

lemma sample_sync_once:
  "sync_campaign (sample_env (Some (ledger_contract True))) (Value 2)
     (sample_world sample_ledger stale_store) =
   (json (Synced 0 None),
    (sample_world sample_ledger stale_store)
      \<lparr>chain := sample_ledger, calls := [GetCampaign 2],
       db := stale_store\<lparr>docs := [stale_doc\<lparr>raisedEth := Some 0\<rparr>]\<rparr>\<rparr>)"
proof -
  let ?w = "sample_world sample_ledger stale_store"
  have c: "contract (sample_env (Some (ledger_contract True))) = Some (ledger_contract True)"
    by (simp add: sample_env_def)
  have g: "getCampaign (ledger_contract True) 2 (chain ?w) = (Inr sample_campaign, sample_ledger)"
    by (simp add: sample_world_def sample_fetch_2)
  have st: "db ?w = stale_store" "calls ?w = []" by (simp_all add: sample_world_def)
  have s: "readyState stale_store = 1" "fault stale_store = None" "docs stale_store = [stale_doc]"
    by (simp_all add: stale_store_def)
  have u: "update_first 2 0 [stale_doc] = ([stale_doc\<lparr>raisedEth := Some 0\<rparr>], Some (stale_doc\<lparr>raisedEth := Some 0\<rparr>))"
    by (simp add: stale_doc_def)
  show ?thesis
    unfolding sync_read_ok[OF c _ g, simplified] st s sample_raised u
    by simp
qed

theorem reconcileAmount_is_idempotent_witness:
  "raisedEth stale_doc = Some 2
   \<and> fst (sync_campaign (sample_env (Some (ledger_contract True))) (Value 2)
            (sample_world sample_ledger stale_store)) = \<lparr>status = 200, body = Synced 0 None\<rparr>
   \<and> fst (sync_campaign (sample_env (Some (ledger_contract True))) (Value 2)
            (snd (sync_campaign (sample_env (Some (ledger_contract True))) (Value 2)
                    (sample_world sample_ledger stale_store)))) =
       \<lparr>status = 200, body = Synced 0 None\<rparr>
   \<and> docs (db (snd (sync_campaign (sample_env (Some (ledger_contract True))) (Value 2)
            (snd (sync_campaign (sample_env (Some (ledger_contract True))) (Value 2)
                    (sample_world sample_ledger stale_store)))))) =
       [stale_doc\<lparr>raisedEth := Some 0\<rparr>]"
proof -
  let ?env = "sample_env (Some (ledger_contract True))"
  let ?w = "sample_world sample_ledger stale_store"
  let ?r1 = "fst (sync_campaign ?env (Value 2) ?w)"
  let ?w1 = "snd (sync_campaign ?env (Value 2) ?w)"
  let ?r2 = "fst (sync_campaign ?env (Value 2) ?w1)"
  let ?w2 = "snd (sync_campaign ?env (Value 2) ?w1)"
  have c: "contract ?env = Some (ledger_contract True)" by (simp add: sample_env_def)
  have first: "sync_campaign ?env (Value 2) ?w = (?r1, ?w1)" by simp
  have second: "sync_campaign ?env (Value 2) ?w1 = (?r2, ?w2)" by simp
  have r1: "?r1 = json (Synced 0 None)" by (simp add: sample_sync_once)
  have ch1: "chain ?w1 = sample_ledger" by (simp add: sample_sync_once)
  have d1: "docs (db ?w1) = [stale_doc\<lparr>raisedEth := Some 0\<rparr>]" by (simp add: sample_sync_once)
  have un: "fst (getCampaign (ledger_contract True) 2 (chain ?w1)) =
            fst (getCampaign (ledger_contract True) 2 (chain ?w))"
  proof -
    have "chain ?w = sample_ledger" by (simp add: sample_world_def)
    then show ?thesis by (simp only: ch1)
  qed
  from reconcileAmount_is_idempotent[OF c first second un]
  have "?r2 = ?r1" "db ?w2 = db ?w1" by blast+
  then show ?thesis using r1 d1 by (simp add: json_def stale_doc_def)
qed

end
